theory Spec2Isabelle
  imports Main
begin

section \<open>Strings and numbers as Python renders them\<close>

text \<open>
  Python strings are modelled as HOL strings holding the UTF-8 bytes of the text, so the
  three status symbols of \<^verbatim>\<open>list_documents\<close> are three bytes each.
  \<^verbatim>\<open>str(n)\<close> of an integer is its decimal numeral.
\<close>

definition check_mark :: string where
  "check_mark = [CHR 0xE2, CHR 0x9C, CHR 0x85]"

definition hourglass :: string where
  "hourglass = [CHR 0xE2, CHR 0x8F, CHR 0xB3]"

definition cross_mark :: string where
  "cross_mark = [CHR 0xE2, CHR 0x9D, CHR 0x8C]"

definition apostrophe :: string where
  "apostrophe = [CHR 0x27]"

fun str_nat :: "nat \<Rightarrow> string" where
  "str_nat n =
     (if n < 10 then [''0123456789'' ! n]
      else str_nat (n div 10) @ [''0123456789'' ! (n mod 10)])"

declare str_nat.simps [simp del]

definition str_int :: "int \<Rightarrow> string" where
  "str_int i = (if i < 0 then ''-'' @ str_nat (nat (- i)) else str_nat (nat i))"

definition lower_char :: "char \<Rightarrow> char" where
  "lower_char c =
     (case map_of (zip ''ABCDEFGHIJKLMNOPQRSTUVWXYZ'' ''abcdefghijklmnopqrstuvwxyz'') c of
        None \<Rightarrow> c
      | Some l \<Rightarrow> l)"

text \<open>
  \<^verbatim>\<open>s.lower()\<close>: the ASCII letters are folded, every other byte is kept. The source
  only compares the result with the ASCII texts \<^verbatim>\<open>'y'\<close> and \<^verbatim>\<open>'.pdf'\<close>.
\<close>

definition lower :: "string \<Rightarrow> string" where
  "lower s = map lower_char s"

definition startswith :: "string \<Rightarrow> string \<Rightarrow> bool" where
  "startswith s p = (take (length p) s = p)"

definition endswith :: "string \<Rightarrow> string \<Rightarrow> bool" where
  "endswith s p = (length p \<le> length s \<and> drop (length s - length p) s = p)"

section \<open>The document table\<close>

text \<open>
  Modelled from the spec: the declaration of \<^verbatim>\<open>PDFDocument\<close> (\<^verbatim>\<open>database.py\<close>) is not
  among the sources. A row has the columns the sources read or write: the
  server-assigned integer id, the filename, the storage path, the byte size, the upload
  timestamp (kept as the text that \<^verbatim>\<open>str(doc.uploaded_at)\<close> yields), the two flags, and
  the page and chunk counts, which are integers. The table is the list of its rows in
  insertion order. A duplicate filename is a business-level conflict, not a
  storage-level one: the table takes a row whatever its filename.
\<close>

record PDFDocument =
  doc_id :: nat
  filename :: string
  file_path :: string
  file_size :: nat
  uploaded_at :: string
  processing :: bool
  processed :: bool
  page_count :: int
  chunks_count :: int

section \<open>mcp_server.py\<close>

text \<open>
  An exception is a value; \<^verbatim>\<open>str(e)\<close> is its message. \<open>Exception\<close> stands for
  whatever an external collaborator (the search engine, the database driver) raises,
  carrying its message. \<open>ValidationError\<close> is what the \<^verbatim>\<open>Resource\<close> type raises for a
  text it does not accept as a URI, carrying that text; \<open>AttributeError\<close> carries the
  name of the attribute that the object does not have.
\<close>

datatype exn =
    ValueError string
  | KeyError string
  | Exception string
  | ValidationError string
  | AttributeError string

fun str_exn :: "exn \<Rightarrow> string" where
  "str_exn (ValueError m) = m"
| "str_exn (KeyError k) = apostrophe @ k @ apostrophe"
| "str_exn (Exception m) = m"
| "str_exn (ValidationError u) = u"
| "str_exn (AttributeError a) = a"

definition bind_exn :: "exn + 'a \<Rightarrow> ('a \<Rightarrow> exn + 'b) \<Rightarrow> exn + 'b" where
  "bind_exn m f = (case m of Inl e \<Rightarrow> Inl e | Inr v \<Rightarrow> f v)"

text \<open>\<^verbatim>\<open>try: body except Exception as e: handler(e)\<close>\<close>

definition try_except :: "exn + 'a \<Rightarrow> (exn \<Rightarrow> exn + 'a) \<Rightarrow> exn + 'a" where
  "try_except body handler = (case body of Inl e \<Rightarrow> handler e | Inr v \<Rightarrow> Inr v)"

text \<open>
  What a query through a fresh session yields: the rows of the table, or the exception
  the database layer raised. Creating and closing the session do not raise.
\<close>

type_synonym table_read = "exn + PDFDocument list"

record Resource =
  uri :: string
  name :: string
  description :: string
  mimeType :: string

text \<open>
  \<^verbatim>\<open>Resource(uri=...)\<close> validates its \<^verbatim>\<open>uri\<close> and raises when the text is not a URI. The
  \<^verbatim>\<open>mcp\<close> library is not among the sources, so the validation is a parameter: the
  predicate that tells which texts the type accepts.
\<close>

type_synonym uri_validation = "string \<Rightarrow> bool"

text \<open>
  The loop of \<^verbatim>\<open>handle_list_resources\<close> over the processed documents: the first
  \<^verbatim>\<open>Resource\<close> that cannot be built raises, and nothing is returned.
\<close>

fun build_resources :: "uri_validation \<Rightarrow> PDFDocument list \<Rightarrow> exn + Resource list" where
  "build_resources valid_uri [] = Inr []"
| "build_resources valid_uri (doc # rest) =
     (if \<not> valid_uri (''pdf://'' @ filename doc) then
        Inl (ValidationError (''pdf://'' @ filename doc))
      else
        bind_exn (build_resources valid_uri rest) (\<lambda>resources.
          Inr (\<lparr> uri = ''pdf://'' @ filename doc,
                 name = filename doc,
                 description = ''PDF document: '' @ filename doc,
                 mimeType = ''application/pdf'' \<rparr> # resources)))"

text \<open>
  \<^verbatim>\<open>handle_list_resources\<close>: no handler, so an exception of the database or of the
  \<^verbatim>\<open>Resource\<close> type propagates.
\<close>

definition handle_list_resources :: "uri_validation \<Rightarrow> table_read \<Rightarrow> exn + Resource list" where
  "handle_list_resources valid_uri tbl =
     bind_exn tbl (\<lambda>rows.
       let documents = filter (\<lambda>doc. processed doc) rows
       in build_resources valid_uri documents)"

fun join_lines :: "string list \<Rightarrow> string" where
  "join_lines [] = []"
| "join_lines [p] = p"
| "join_lines (p # q # ps) = p @ ''\<newline>'' @ join_lines (q # ps)"

definition resource_summary :: "PDFDocument \<Rightarrow> string" where
  "resource_summary document =
     join_lines
       [''Document: '' @ filename document,
        ''Pages: '' @ str_int (page_count document),
        ''Status: Processed'',
        ''Upload Date: '' @ uploaded_at document,
        ''File Size: '' @ str_nat (file_size document) @ '' bytes'']"

text \<open>
  The value that \<^verbatim>\<open>handle_read_resource\<close> receives as \<^verbatim>\<open>uri\<close>. The annotation says
  \<^verbatim>\<open>str\<close>, and a direct call passes one; the server, through the handler registered by
  \<^verbatim>\<open>@server.read_resource()\<close>, passes the URL object of the request, which is not a
  string and has no \<^verbatim>\<open>startswith\<close>.
\<close>

datatype uri_value = UriStr string | UriObject string

text \<open>
  \<^verbatim>\<open>handle_read_resource\<close>: \<^verbatim>\<open>uri.startswith\<close> is the first thing evaluated. The two
  failures of the function's own are a \<^verbatim>\<open>ValueError\<close> each, told apart by the message.
\<close>

definition handle_read_resource :: "table_read \<Rightarrow> uri_value \<Rightarrow> exn + string" where
  "handle_read_resource tbl uri_arg =
     (case uri_arg of
        UriObject url \<Rightarrow> Inl (AttributeError ''startswith'')
      | UriStr u \<Rightarrow>
          if \<not> startswith u ''pdf://'' then
            Inl (ValueError (''Unsupported URI scheme: '' @ u))
          else
            let fname = drop 6 u
            in bind_exn tbl (\<lambda>rows.
                 case find (\<lambda>doc. filename doc = fname \<and> processed doc) rows of
                   None \<Rightarrow> Inl (ValueError (''Document not found: '' @ fname))
                 | Some document \<Rightarrow> Inr (resource_summary document)))"

text \<open>
  The arguments of a tool call, as the declared input schemas type them: \<^verbatim>\<open>query\<close> and
  \<^verbatim>\<open>filename\<close> are strings, \<^verbatim>\<open>limit\<close> is an integer, and each may be absent.
\<close>

record arguments =
  arg_query :: "string option"
  arg_limit :: "int option"
  arg_filename :: "string option"

definition get_arg :: "'a option \<Rightarrow> 'a \<Rightarrow> 'a" where
  "get_arg v dflt = (case v of None \<Rightarrow> dflt | Some x \<Rightarrow> x)"

text \<open>
  A search result is a dictionary from keys to the text of their values. The search
  engine is a parameter: given the query and \<^verbatim>\<open>k\<close> it returns results or raises.
\<close>

type_synonym search_result = "string \<rightharpoonup> string"

type_synonym search_engine = "string \<Rightarrow> int \<Rightarrow> exn + search_result list"

text \<open>The loop over \<^verbatim>\<open>enumerate(results, 1)\<close>; a result without \<^verbatim>\<open>'content'\<close> raises.\<close>

fun format_results :: "nat \<Rightarrow> search_result list \<Rightarrow> exn + string list" where
  "format_results i [] = Inr []"
| "format_results i (result # rest) =
     (case result ''content'' of
        None \<Rightarrow> Inl (KeyError ''content'')
      | Some content \<Rightarrow>
          bind_exn (format_results (Suc i) rest) (\<lambda>parts.
            Inr ((''\<newline>--- Result '' @ str_nat i @ '' ---\<newline>'' @
                  ''Relevance Score: '' @ get_arg (result ''distance'') ''N/A'' @ ''\<newline>'' @
                  ''Content:\<newline>'' @ content @ ''\<newline>'') # parts)))"

definition doc_entry :: "PDFDocument \<Rightarrow> string" where
  "doc_entry doc =
     (let status_emoji =
            (if processed doc then check_mark
             else if processing doc then hourglass else cross_mark);
          status_text =
            (if processed doc then ''completed''
             else if processing doc then ''processing'' else ''failed'')
      in status_emoji @ '' '' @ filename doc @ ''\<newline>'' @
         ''   Status: '' @ status_text @ ''\<newline>'' @
         ''   Upload Date: '' @ uploaded_at doc @ ''\<newline>'' @
         ''   File Size: '' @ str_nat (file_size doc) @ '' bytes\<newline>\<newline>'')"

definition document_info :: "PDFDocument \<Rightarrow> string" where
  "document_info document =
     (let chunk_count = chunks_count document;
          status_text =
            (if processed document then ''completed''
             else if processing document then ''processing'' else ''failed'');
          response =
            ''Document Information: '' @ filename document @ ''\<newline>\<newline>'' @
            ''Status: '' @ status_text @ ''\<newline>'' @
            ''Upload Date: '' @ uploaded_at document @ ''\<newline>'' @
            ''File Size: '' @ str_nat (file_size document) @ '' bytes\<newline>'' @
            ''Number of Chunks: '' @ str_int chunk_count @ ''\<newline>'' @
            ''Page Count: '' @ str_int (page_count document) @ ''\<newline>'' @
            ''File Path: '' @ file_path document @ ''\<newline>''
      in if processed document \<and> chunk_count > 0 then
           response @ ''\<newline>Document is ready for searching and contains '' @
             str_int chunk_count @ '' searchable chunks.''
         else if processing document then
           response @ ''\<newline>Document is currently being processed.''
         else
           response @ ''\<newline>Document processing may have failed or is incomplete.'')"

text \<open>
  \<^verbatim>\<open>handle_call_tool\<close>. The result is the list of text contents returned, or the
  exception that leaves the handler; the second component lists the calls made to the
  search engine, in order.
\<close>

definition handle_call_tool ::
  "search_engine \<Rightarrow> table_read \<Rightarrow> string \<Rightarrow> arguments \<Rightarrow>
     (exn + string list) \<times> (string \<times> int) list" where
  "handle_call_tool search tbl nm args =
     (if nm = ''search_documents'' then
        (let query = get_arg (arg_query args) [];
             limit = get_arg (arg_limit args) 5
         in if query = [] then (Inr [''Error: Query is required''], [])
            else
              (try_except
                 (bind_exn (search query limit) (\<lambda>results.
                    if results = [] then
                      Inr [''No relevant documents found for your query.'']
                    else
                      bind_exn (format_results 1 results) (\<lambda>parts.
                        Inr [concat
                          ((''Found '' @ str_nat (length results) @
                            '' relevant results for query: '' @ apostrophe @ query @
                            apostrophe @ ''\<newline>'') # parts)])))
                 (\<lambda>e. Inr [''Error performing search: '' @ str_exn e]),
               [(query, limit)]))
      else if nm = ''list_documents'' then
        (try_except
           (bind_exn tbl (\<lambda>documents.
              if documents = [] then Inr [''No documents found in the knowledge base.'']
              else
                Inr [concat (''Available documents in the knowledge base:\<newline>\<newline>'' #
                             map doc_entry documents)]))
           (\<lambda>e. Inr [''Error listing documents: '' @ str_exn e]),
         [])
      else if nm = ''get_document_info'' then
        (let fname = get_arg (arg_filename args) []
         in if fname = [] then (Inr [''Error: Filename is required''], [])
            else
              (try_except
                 (bind_exn tbl (\<lambda>rows.
                    case find (\<lambda>doc. filename doc = fname) rows of
                      None \<Rightarrow>
                        Inr [''Document '' @ apostrophe @ fname @ apostrophe @ '' not found.'']
                    | Some document \<Rightarrow> Inr [document_info document]))
                 (\<lambda>e. Inr [''Error getting document info: '' @ str_exn e]),
               []))
      else (Inr [''Unknown tool: '' @ nm], []))"

section \<open>upload_pdf.py\<close>

text \<open>
  Path texts follow \<^verbatim>\<open>posixpath\<close>. A file system maps a path text to the bytes that
  \<^verbatim>\<open>os.path.exists\<close> and \<^verbatim>\<open>os.path.getsize\<close> see through it.
\<close>

type_synonym filesystem = "string \<rightharpoonup> string"

datatype upload_exn =
    FileNotFoundError string
  | SameFileError string string
  | OSError string
  | EngineError string

definition path_exists :: "filesystem \<Rightarrow> string \<Rightarrow> bool" where
  "path_exists fsys p = (fsys p \<noteq> None)"

definition getsize :: "filesystem \<Rightarrow> string \<Rightarrow> upload_exn + nat" where
  "getsize fsys p =
     (case fsys p of None \<Rightarrow> Inl (FileNotFoundError p) | Some bytes \<Rightarrow> Inr (length bytes))"

definition basename :: "string \<Rightarrow> string" where
  "basename p = rev (takeWhile (\<lambda>c. c \<noteq> CHR ''/'') (rev p))"

definition path_join :: "string \<Rightarrow> string \<Rightarrow> string" where
  "path_join a b =
     (if startswith b ''/'' then b
      else if a = [] \<or> endswith a ''/'' then a @ b
      else a @ ''/'' @ b)"

text \<open>
  The state the uploader works on: the document table and the disk. Of the disk the
  state records, besides the files, which different path texts name the same file
  (\<open>aliases\<close>: links, relative and dotted spellings), and which copies the operating
  system does not carry out, with the message of the error it raises (\<open>refused\<close>: a
  directory in the way, no permission, no space left).
\<close>

record world =
  db :: "PDFDocument list"
  files :: filesystem
  aliases :: "string \<Rightarrow> string \<Rightarrow> bool"
  refused :: "string \<Rightarrow> string \<Rightarrow> string option"

text \<open>\<^verbatim>\<open>os.path.samefile\<close>: the two paths name one file, whatever their spelling.\<close>

definition samefile :: "world \<Rightarrow> string \<Rightarrow> string \<Rightarrow> bool" where
  "samefile w a b = (a = b \<or> aliases w a b \<or> aliases w b a)"

text \<open>Writing through a path changes what every path to the same file reads.\<close>

definition write_file :: "world \<Rightarrow> string \<Rightarrow> string \<Rightarrow> filesystem" where
  "write_file w dst bytes = (\<lambda>p. if samefile w p dst then Some bytes else files w p)"

text \<open>
  \<^verbatim>\<open>shutil.copy2\<close>: raises \<^verbatim>\<open>SameFileError\<close> when source and destination are the same
  file, raises what the operating system raises when it refuses the copy, and otherwise
  writes the bytes of the source to the destination.
\<close>

definition copy2 :: "world \<Rightarrow> string \<Rightarrow> string \<Rightarrow> upload_exn + filesystem" where
  "copy2 w src dst =
     (case files w src of
        None \<Rightarrow> Inl (FileNotFoundError src)
      | Some bytes \<Rightarrow>
          if samefile w src dst then Inl (SameFileError src dst)
          else case refused w src dst of
                 Some msg \<Rightarrow> Inl (OSError msg)
               | None \<Rightarrow> Inr (write_file w dst bytes))"

text \<open>
  The processing engine (\<^verbatim>\<open>PDFProcessor.process_pdf\<close>) is not among the sources and is a
  parameter: called with the record id, the stored path and the filename, it works on
  the table through a session of its own and either returns (\<open>None\<close>) or raises.
\<close>

type_synonym processor =
  "nat \<Rightarrow> string \<Rightarrow> string \<Rightarrow> PDFDocument list \<Rightarrow> upload_exn option \<times> PDFDocument list"

text \<open>
  The uploader sets five columns of the record it creates; the store fills in the rest.
  The values the store gives to the upload timestamp, the page count and the chunk count
  are parameters. The id is one the table does not hold yet: the successor of the
  largest id in it.
\<close>

record store_defaults =
  now :: string
  default_page_count :: int
  default_chunks_count :: int

definition fresh_id :: "PDFDocument list \<Rightarrow> nat" where
  "fresh_id rows = Suc (foldr max (map doc_id rows) 0)"

text \<open>
  \<^verbatim>\<open>PDFDocument(filename=..., file_path=..., file_size=..., processing=True, processed=False)\<close>
  once added, committed and refreshed.
\<close>

definition new_document ::
  "store_defaults \<Rightarrow> nat \<Rightarrow> string \<Rightarrow> string \<Rightarrow> nat \<Rightarrow> PDFDocument" where
  "new_document dflt i fname dest_path fsize =
     \<lparr> doc_id = i, filename = fname, file_path = dest_path, file_size = fsize,
       uploaded_at = now dflt, processing = True, processed = False,
       page_count = default_page_count dflt,
       chunks_count = default_chunks_count dflt \<rparr>"

record PDFUploader =
  pdf_processor :: processor
  uploads_dir :: string

text \<open>The lines the uploader prints, one constructor for each \<^verbatim>\<open>print\<close> of the source.\<close>

datatype line =
    FileNotFound string
  | NotAPdf string
  | ProcessingPdf string
  | FileSize nat
  | AlreadyExists string
  | ReprocessPrompt
  | UploadCancelled
  | DeletedRecord
  | CopiedTo string
  | CreatedRecord nat
  | StartingProcessing
  | ProcessingSucceeded
  | NowAvailable string
  | ProcessingFailed
  | UploadError upload_exn
  | ProcessingCompleted
  | ProcessingError upload_exn

text \<open>
  What a run leaves behind: the value returned, the lines printed, the tables the
  uploader committed (in order; each is visible to other sessions from then on), the
  calls it made to the engine, and the final state.
\<close>

record outcome =
  returned :: bool
  stdout :: "line list"
  commits :: "PDFDocument list list"
  engine_calls :: "(nat \<times> string \<times> string) list"
  final :: world

text \<open>\<^verbatim>\<open>_process_pdf_async\<close>: the engine's exception is caught and turned into \<open>False\<close>.\<close>

definition process_pdf_async ::
  "PDFUploader \<Rightarrow> nat \<Rightarrow> string \<Rightarrow> string \<Rightarrow> PDFDocument list
     \<Rightarrow> (bool \<times> line list) \<times> PDFDocument list" where
  "process_pdf_async self pdf_id pdf_path fname rows =
     (case pdf_processor self pdf_id pdf_path fname rows of
        (None, rows') \<Rightarrow> ((True, [ProcessingCompleted]), rows')
      | (Some e, rows') \<Rightarrow> ((False, [ProcessingError e]), rows'))"

text \<open>
  Lines 74 to 104 of \<^verbatim>\<open>upload_and_process_pdf\<close>: copy, create the record, commit, run
  the engine. An exception of the copy is caught by the outer handler (line 109).
\<close>

definition store_and_process ::
  "PDFUploader \<Rightarrow> store_defaults \<Rightarrow> string \<Rightarrow> string \<Rightarrow> nat \<Rightarrow> line list
     \<Rightarrow> PDFDocument list list \<Rightarrow> world \<Rightarrow> outcome" where
  "store_and_process self dflt pdf_path fname fsize out cs w =
     (let dest_path = path_join (uploads_dir self) fname
      in case copy2 w pdf_path dest_path of
           Inl e \<Rightarrow>
             \<lparr> returned = False, stdout = out @ [UploadError e], commits = cs,
               engine_calls = [], final = w \<rparr>
         | Inr files' \<Rightarrow>
             let pdf_document = new_document dflt (fresh_id (db w)) fname dest_path fsize;
                 rows2 = db w @ [pdf_document];
                 out2 = out @ [CopiedTo dest_path, CreatedRecord (doc_id pdf_document),
                               StartingProcessing]
             in case process_pdf_async self (doc_id pdf_document) dest_path fname rows2 of
                  ((success, printed), rows3) \<Rightarrow>
                    \<lparr> returned = success,
                      stdout = out2 @ printed @
                        (if success then [ProcessingSucceeded, NowAvailable fname]
                         else [ProcessingFailed]),
                      commits = cs @ [rows2],
                      engine_calls = [(doc_id pdf_document, dest_path, fname)],
                      final = w\<lparr>db := rows3, files := files'\<rparr> \<rparr>)"

text \<open>
  \<^verbatim>\<open>upload_and_process_pdf\<close>. \<open>response\<close> is the line the user types at the prompt.
  \<^verbatim>\<open>db.delete(existing_doc)\<close> deletes the row with that primary key.
\<close>

definition upload_and_process_pdf ::
  "PDFUploader \<Rightarrow> store_defaults \<Rightarrow> string \<Rightarrow> string \<Rightarrow> world \<Rightarrow> outcome" where
  "upload_and_process_pdf self dflt pdf_path response w =
     (if \<not> path_exists (files w) pdf_path then
        \<lparr> returned = False, stdout = [FileNotFound pdf_path], commits = [],
          engine_calls = [], final = w \<rparr>
      else if \<not> endswith (lower pdf_path) ''.pdf'' then
        \<lparr> returned = False, stdout = [NotAPdf pdf_path], commits = [],
          engine_calls = [], final = w \<rparr>
      else
        case getsize (files w) pdf_path of
          Inl e \<Rightarrow>
            \<lparr> returned = False, stdout = [UploadError e], commits = [],
              engine_calls = [], final = w \<rparr>
        | Inr fsize \<Rightarrow>
            let fname = basename pdf_path;
                out = [ProcessingPdf fname, FileSize fsize]
            in case find (\<lambda>d. filename d = fname) (db w) of
                 Some existing_doc \<Rightarrow>
                   if lower response \<noteq> ''y'' then
                     \<lparr> returned = False,
                       stdout = out @ [AlreadyExists fname, ReprocessPrompt, UploadCancelled],
                       commits = [], engine_calls = [], final = w \<rparr>
                   else
                     let rows1 = filter (\<lambda>d. doc_id d \<noteq> doc_id existing_doc) (db w)
                     in store_and_process self dflt pdf_path fname fsize
                          (out @ [AlreadyExists fname, ReprocessPrompt, DeletedRecord])
                          [rows1] (w\<lparr>db := rows1\<rparr>)
               | None \<Rightarrow> store_and_process self dflt pdf_path fname fsize out [] w)"

text \<open>
  The same function when another session writes between its steps. The query of line 61
  is answered from the table \<open>seen\<close>, as it stood when the query ran; the steps after
  it (lines 69 to 104) work on the state \<open>w\<close> that the other session has left in the
  meantime. The code holds no lock from the query to the commit of line 89, and the
  table takes the row it adds.
\<close>

definition overlapped_upload ::
  "PDFUploader \<Rightarrow> store_defaults \<Rightarrow> string \<Rightarrow> string \<Rightarrow> PDFDocument list \<Rightarrow> world
     \<Rightarrow> outcome" where
  "overlapped_upload self dflt pdf_path response seen w =
     (if \<not> path_exists (files w) pdf_path then
        \<lparr> returned = False, stdout = [FileNotFound pdf_path], commits = [],
          engine_calls = [], final = w \<rparr>
      else if \<not> endswith (lower pdf_path) ''.pdf'' then
        \<lparr> returned = False, stdout = [NotAPdf pdf_path], commits = [],
          engine_calls = [], final = w \<rparr>
      else
        case getsize (files w) pdf_path of
          Inl e \<Rightarrow>
            \<lparr> returned = False, stdout = [UploadError e], commits = [],
              engine_calls = [], final = w \<rparr>
        | Inr fsize \<Rightarrow>
            let fname = basename pdf_path;
                out = [ProcessingPdf fname, FileSize fsize]
            in case find (\<lambda>d. filename d = fname) seen of
                 Some existing_doc \<Rightarrow>
                   if lower response \<noteq> ''y'' then
                     \<lparr> returned = False,
                       stdout = out @ [AlreadyExists fname, ReprocessPrompt, UploadCancelled],
                       commits = [], engine_calls = [], final = w \<rparr>
                   else
                     let rows1 = filter (\<lambda>d. doc_id d \<noteq> doc_id existing_doc) (db w)
                     in store_and_process self dflt pdf_path fname fsize
                          (out @ [AlreadyExists fname, ReprocessPrompt, DeletedRecord])
                          [rows1] (w\<lparr>db := rows1\<rparr>)
               | None \<Rightarrow> store_and_process self dflt pdf_path fname fsize out [] w)"

section \<open>Lifecycle invariants\<close>

definition at_most_one_live :: "PDFDocument list \<Rightarrow> bool" where
  "at_most_one_live rows = distinct (map filename rows)"

definition no_overlap :: "PDFDocument list \<Rightarrow> bool" where
  "no_overlap rows = list_all (\<lambda>d. \<not> (processing d \<and> processed d)) rows"

definition live_records :: "PDFDocument list \<Rightarrow> string \<Rightarrow> PDFDocument list" where
  "live_records rows f = filter (\<lambda>d. filename d = f) rows"

definition valid_source :: "world \<Rightarrow> string \<Rightarrow> bool" where
  "valid_source w pdf_path =
     (path_exists (files w) pdf_path \<and> endswith (lower pdf_path) ''.pdf'')"

text \<open>
  The engine keeps a property of the table when every call of it that starts from a
  table with the property leaves a table with the property.
\<close>

definition engine_keeps :: "PDFUploader \<Rightarrow> (PDFDocument list \<Rightarrow> bool) \<Rightarrow> bool" where
  "engine_keeps self P =
     (\<forall>i p f rows. P rows \<longrightarrow> P (snd (pdf_processor self i p f rows)))"

section \<open>The status function and the readiness statements, as specified\<close>

text \<open>
  The derived status of a record, from its two flags: completed when \<open>processed\<close> is
  set, processing when \<open>processed\<close> is clear and \<open>processing\<close> is set, failed otherwise.
\<close>

definition derived_status :: "PDFDocument \<Rightarrow> string" where
  "derived_status d =
     (if processed d then ''completed''
      else if \<not> processed d \<and> processing d then ''processing''
      else ''failed'')"

definition status_symbol :: "string \<Rightarrow> string" where
  "status_symbol st =
     (if st = ''completed'' then check_mark
      else if st = ''processing'' then hourglass
      else cross_mark)"

definition entry_layout :: "PDFDocument \<Rightarrow> string \<Rightarrow> string" where
  "entry_layout d st =
     status_symbol st @ '' '' @ filename d @ ''\<newline>'' @
     ''   Status: '' @ st @ ''\<newline>'' @
     ''   Upload Date: '' @ uploaded_at d @ ''\<newline>'' @
     ''   File Size: '' @ str_nat (file_size d) @ '' bytes\<newline>\<newline>''"

definition info_layout :: "PDFDocument \<Rightarrow> string \<Rightarrow> string" where
  "info_layout d st =
     ''Document Information: '' @ filename d @ ''\<newline>\<newline>'' @
     ''Status: '' @ st @ ''\<newline>'' @
     ''Upload Date: '' @ uploaded_at d @ ''\<newline>'' @
     ''File Size: '' @ str_nat (file_size d) @ '' bytes\<newline>'' @
     ''Number of Chunks: '' @ str_int (chunks_count d) @ ''\<newline>'' @
     ''Page Count: '' @ str_int (page_count d) @ ''\<newline>'' @
     ''File Path: '' @ file_path d @ ''\<newline>''"

definition ready_statement :: "int \<Rightarrow> string" where
  "ready_statement n =
     ''\<newline>Document is ready for searching and contains '' @ str_int n @
     '' searchable chunks.''"

definition in_progress_statement :: string where
  "in_progress_statement = ''\<newline>Document is currently being processed.''"

definition incomplete_statement :: string where
  "incomplete_statement = ''\<newline>Document processing may have failed or is incomplete.''"

definition known_tools :: "string set" where
  "known_tools = {''search_documents'', ''list_documents'', ''get_document_info''}"

definition pdf_uri :: "string \<Rightarrow> string" where
  "pdf_uri f = ''pdf://'' @ f"

definition processed_filenames :: "PDFDocument list \<Rightarrow> string set" where
  "processed_filenames rows = filename ` {d \<in> set rows. processed d}"

section \<open>Example tables\<close>

definition report_doc :: PDFDocument where
  "report_doc =
     \<lparr> doc_id = 1, filename = ''report.pdf'', file_path = ''/srv/uploads/report.pdf'',
       file_size = 1024, uploaded_at = ''2024-01-01 00:00:00'', processing = False,
       processed = True, page_count = 10, chunks_count = 42 \<rparr>"

definition draft_doc :: PDFDocument where
  "draft_doc =
     \<lparr> doc_id = 2, filename = ''draft.pdf'', file_path = ''/srv/uploads/draft.pdf'',
       file_size = 7, uploaded_at = ''2024-01-02 00:00:00'', processing = True,
       processed = False, page_count = 0, chunks_count = 0 \<rparr>"

definition bad_doc :: PDFDocument where
  "bad_doc =
     \<lparr> doc_id = 3, filename = ''bad.pdf'', file_path = ''/srv/uploads/bad.pdf'',
       file_size = 3, uploaded_at = ''2024-01-03 00:00:00'', processing = False,
       processed = False, page_count = 0, chunks_count = 0 \<rparr>"

definition example_rows :: "PDFDocument list" where
  "example_rows = [report_doc, draft_doc, bad_doc]"

definition spaced_doc :: PDFDocument where
  "spaced_doc =
     \<lparr> doc_id = 4, filename = ''My Report.pdf'', file_path = ''/srv/uploads/My Report.pdf'',
       file_size = 9, uploaded_at = ''2024-01-04 00:00:00'', processing = False,
       processed = True, page_count = 2, chunks_count = 5 \<rparr>"

text \<open>A validation that, as every URI grammar does, rejects a text with a space in it.\<close>

definition without_space :: uri_validation where
  "without_space u = (CHR '' '' \<notin> set u)"

definition failing_search :: search_engine where
  "failing_search q k = Inl (Exception ''index offline'')"

definition no_arguments :: arguments where
  "no_arguments = \<lparr> arg_query = None, arg_limit = None, arg_filename = None \<rparr>"

section \<open>Example runs of the uploader\<close>

definition some_defaults :: store_defaults where
  "some_defaults =
     \<lparr> now = ''2024-02-01 09:00:00'', default_page_count = 0, default_chunks_count = 0 \<rparr>"

definition raising_engine :: processor where
  "raising_engine i p f rows = (Some (EngineError ''cannot parse''), rows)"

definition quiet_engine :: processor where
  "quiet_engine i p f rows = (None, rows)"

definition bad_uploader :: PDFUploader where
  "bad_uploader = \<lparr> pdf_processor = raising_engine, uploads_dir = ''/srv/uploads'' \<rparr>"

definition quiet_uploader :: PDFUploader where
  "quiet_uploader = \<lparr> pdf_processor = quiet_engine, uploads_dir = ''/srv/uploads'' \<rparr>"

definition bad_world :: world where
  "bad_world =
     \<lparr> db = [], files = [''/home/u/bad.pdf'' \<mapsto> ''%PDF''],
       aliases = (\<lambda>a b. False), refused = (\<lambda>a b. None) \<rparr>"

definition bad_run :: outcome where
  "bad_run = upload_and_process_pdf bad_uploader some_defaults ''/home/u/bad.pdf'' [] bad_world"

definition marking_engine :: processor where
  "marking_engine i p f rows =
     (Some (EngineError ''cannot parse''),
      map (\<lambda>d. if doc_id d = i then d\<lparr>processing := False\<rparr> else d) rows)"

definition marking_uploader :: PDFUploader where
  "marking_uploader = \<lparr> pdf_processor = marking_engine, uploads_dir = ''/srv/uploads'' \<rparr>"

definition stuck_world :: world where
  "stuck_world =
     \<lparr> db = [draft_doc], files = [''/home/u/bad.pdf'' \<mapsto> ''%PDF''],
       aliases = (\<lambda>a b. False), refused = (\<lambda>a b. None) \<rparr>"

definition marked_run :: outcome where
  "marked_run =
     upload_and_process_pdf marking_uploader some_defaults ''/home/u/bad.pdf'' [] stuck_world"

definition failed_record :: PDFDocument where
  "failed_record =
     (new_document some_defaults 3 ''bad.pdf'' ''/srv/uploads/bad.pdf'' 4)
       \<lparr>processing := False\<rparr>"

definition old_report :: PDFDocument where
  "old_report =
     \<lparr> doc_id = 1, filename = ''report.pdf'', file_path = ''/archive/report.pdf'',
       file_size = 9, uploaded_at = ''2024-01-01 00:00:00'', processing = False,
       processed = True, page_count = 10, chunks_count = 42 \<rparr>"

definition replace_world :: world where
  "replace_world =
     \<lparr> db = [old_report],
       files = [''/home/u/report.pdf'' \<mapsto> ''new bytes'',
                ''/archive/report.pdf'' \<mapsto> ''old bytes''],
       aliases = (\<lambda>a b. False), refused = (\<lambda>a b. None) \<rparr>"

definition replace_run :: outcome where
  "replace_run =
     upload_and_process_pdf quiet_uploader some_defaults ''/home/u/report.pdf'' ''Y''
       replace_world"

definition declined_run :: outcome where
  "declined_run =
     upload_and_process_pdf quiet_uploader some_defaults ''/home/u/report.pdf'' ''n''
       replace_world"

definition stored_report :: PDFDocument where
  "stored_report =
     \<lparr> doc_id = 1, filename = ''report.pdf'', file_path = ''/srv/uploads/report.pdf'',
       file_size = 9, uploaded_at = ''2024-01-01 00:00:00'', processing = False,
       processed = True, page_count = 10, chunks_count = 42 \<rparr>"

definition in_place_world :: world where
  "in_place_world =
     \<lparr> db = [stored_report], files = [''/srv/uploads/report.pdf'' \<mapsto> ''old bytes''],
       aliases = (\<lambda>a b. False), refused = (\<lambda>a b. None) \<rparr>"

definition in_place_run :: outcome where
  "in_place_run =
     upload_and_process_pdf quiet_uploader some_defaults ''/srv/uploads/report.pdf'' ''y''
       in_place_world"

definition managed_world :: world where
  "managed_world =
     \<lparr> db = [stored_report],
       files = [''/home/u/report.pdf'' \<mapsto> ''new bytes'',
                ''/srv/uploads/report.pdf'' \<mapsto> ''old bytes''],
       aliases = (\<lambda>a b. False), refused = (\<lambda>a b. None) \<rparr>"

definition managed_run :: outcome where
  "managed_run =
     upload_and_process_pdf quiet_uploader some_defaults ''/home/u/report.pdf'' ''y''
       managed_world"

definition dotted_world :: world where
  "dotted_world =
     \<lparr> db = [stored_report],
       files = [''/srv/uploads/report.pdf'' \<mapsto> ''old bytes'',
                ''/srv/uploads/./report.pdf'' \<mapsto> ''old bytes''],
       aliases = (\<lambda>a b. a = ''/srv/uploads/./report.pdf'' \<and> b = ''/srv/uploads/report.pdf''),
       refused = (\<lambda>a b. None) \<rparr>"

definition dotted_run :: outcome where
  "dotted_run =
     upload_and_process_pdf quiet_uploader some_defaults ''/srv/uploads/./report.pdf'' ''y''
       dotted_world"

definition same_world :: world where
  "same_world =
     \<lparr> db = [], files = [''/home/u/same.pdf'' \<mapsto> ''%PDF''],
       aliases = (\<lambda>a b. False), refused = (\<lambda>a b. None) \<rparr>"

definition first_run :: outcome where
  "first_run =
     upload_and_process_pdf quiet_uploader some_defaults ''/home/u/same.pdf'' [] same_world"

definition second_run :: outcome where
  "second_run =
     overlapped_upload quiet_uploader some_defaults ''/home/u/same.pdf'' [] (db same_world)
       (final first_run)"

definition bad_record :: PDFDocument where
  "bad_record = new_document some_defaults 1 ''bad.pdf'' ''/srv/uploads/bad.pdf'' 4"

section \<open>Properties of the tool adapter\<close>

text \<open>
  C6. A call of \<^verbatim>\<open>search_documents\<close> whose query is the empty string, or whose query
  argument is absent, returns the literal text "Error: Query is required", and the
  search engine is not called: the list of engine calls is empty, whatever the engine,
  the table and the other arguments are.
\<close>

theorem search_empty_query_rejected:
  "handle_call_tool search tbl ''search_documents'' (args\<lparr>arg_query := Some []\<rparr>)
     = (Inr [''Error: Query is required''], []) \<and>
   handle_call_tool search tbl ''search_documents'' (args\<lparr>arg_query := None\<rparr>)
     = (Inr [''Error: Query is required''], [])"
  by (simp add: handle_call_tool_def get_arg_def)

text \<open>
  C10. When the table holds no rows, \<^verbatim>\<open>list_documents\<close> returns the literal text
  "No documents found in the knowledge base." and nothing else.
\<close>

theorem list_documents_empty_store:
  "handle_call_tool search (Inr []) ''list_documents'' args
     = (Inr [''No documents found in the knowledge base.''], [])"
  by (simp add: handle_call_tool_def bind_exn_def try_except_def)

lemma find_processed_None:
  "(find (\<lambda>doc. filename doc = f \<and> processed doc) rows = None) = (f \<notin> processed_filenames rows)"
  by (auto simp: find_None_iff processed_filenames_def)

lemma find_processed_Some:
  "find (\<lambda>doc. filename doc = f \<and> processed doc) rows = Some d \<Longrightarrow>
     d \<in> set rows \<and> filename d = f \<and> processed d"
  by (auto simp: find_Some_iff)

lemma read_resource_pdf:
  "handle_read_resource (Inr rows) (UriStr (pdf_uri f)) =
     (case find (\<lambda>doc. filename doc = f \<and> processed doc) rows of
        None \<Rightarrow> Inl (ValueError (''Document not found: '' @ f))
      | Some document \<Rightarrow> Inr (resource_summary document))"
  by (simp add: handle_read_resource_def startswith_def bind_exn_def Let_def pdf_uri_def)

lemma build_resources_valid:
  "\<forall>d \<in> set docs. valid_uri (pdf_uri (filename d)) \<Longrightarrow>
   build_resources valid_uri docs =
     Inr (map (\<lambda>doc. \<lparr> uri = pdf_uri (filename doc), name = filename doc,
                         description = ''PDF document: '' @ filename doc,
                         mimeType = ''application/pdf'' \<rparr>) docs)"
  by (induction docs) (simp_all add: pdf_uri_def bind_exn_def)

lemma build_resources_invalid:
  "d \<in> set docs \<Longrightarrow> \<not> valid_uri (pdf_uri (filename d)) \<Longrightarrow>
   \<exists>bad \<in> set docs. \<not> valid_uri (pdf_uri (filename bad)) \<and>
      build_resources valid_uri docs = Inl (ValidationError (pdf_uri (filename bad)))"
proof (induction docs)
  case Nil
  then show ?case by simp
next
  case (Cons doc rest)
  show ?case
  proof (cases "valid_uri (pdf_uri (filename doc))")
    case False
    then show ?thesis by (auto simp: pdf_uri_def)
  next
    case True
    with Cons.prems have "d \<in> set rest" by auto
    from Cons.IH [OF this Cons.prems(2)] True show ?thesis
      by (auto simp: pdf_uri_def bind_exn_def)
  qed
qed

lemma resource_summary_text:
  "resource_summary d =
     ''Document: '' @ filename d @ ''\<newline>'' @
     ''Pages: '' @ str_int (page_count d) @ ''\<newline>'' @
     ''Status: Processed\<newline>'' @
     ''Upload Date: '' @ uploaded_at d @ ''\<newline>'' @
     ''File Size: '' @ str_nat (file_size d) @ '' bytes''"
  by (simp add: resource_summary_def)

text \<open>
  Where the code agrees with the round trip: on a table whose processed filenames all
  make a text that the \<^verbatim>\<open>Resource\<close> type accepts, the listing has one handle for each
  processed row, and a read with the URI given as a string succeeds exactly for the
  listed handles, with the summary of a processed row of that name.
\<close>

lemma round_trip_for_accepted_names:
  assumes "\<forall>d \<in> set rows. processed d \<longrightarrow> valid_uri (pdf_uri (filename d))"
  shows "handle_list_resources valid_uri (Inr rows) =
           Inr (map (\<lambda>doc. \<lparr> uri = pdf_uri (filename doc), name = filename doc,
                               description = ''PDF document: '' @ filename doc,
                               mimeType = ''application/pdf'' \<rparr>) (filter processed rows))"
    and "(\<exists>txt. handle_read_resource (Inr rows) (UriStr (pdf_uri f)) = Inr txt)
           = (f \<in> processed_filenames rows)"
    and "f \<in> processed_filenames rows \<Longrightarrow>
           \<exists>d \<in> set rows. filename d = f \<and> processed d \<and>
             handle_read_resource (Inr rows) (UriStr (pdf_uri f)) = Inr (resource_summary d)"
    and "\<not> startswith u ''pdf://'' \<Longrightarrow>
           handle_read_resource tbl (UriStr u)
             = Inl (ValueError (''Unsupported URI scheme: '' @ u))"
    and "g \<notin> processed_filenames rows \<Longrightarrow>
           handle_read_resource (Inr rows) (UriStr (pdf_uri g))
             = Inl (ValueError (''Document not found: '' @ g))"
proof -
  let ?found = "find (\<lambda>doc. filename doc = f \<and> processed doc) rows"
  from assms have "\<forall>d \<in> set (filter processed rows). valid_uri (pdf_uri (filename d))"
    by simp
  then show "handle_list_resources valid_uri (Inr rows) =
           Inr (map (\<lambda>doc. \<lparr> uri = pdf_uri (filename doc), name = filename doc,
                               description = ''PDF document: '' @ filename doc,
                               mimeType = ''application/pdf'' \<rparr>) (filter processed rows))"
    by (simp add: handle_list_resources_def bind_exn_def build_resources_valid)
  show "(\<exists>txt. handle_read_resource (Inr rows) (UriStr (pdf_uri f)) = Inr txt)
           = (f \<in> processed_filenames rows)"
    using find_processed_None [of f rows]
    by (cases ?found) (simp_all add: read_resource_pdf)
  show "\<exists>d \<in> set rows. filename d = f \<and> processed d \<and>
             handle_read_resource (Inr rows) (UriStr (pdf_uri f)) = Inr (resource_summary d)"
    if "f \<in> processed_filenames rows"
  proof -
    from that obtain d where d: "?found = Some d"
      using find_processed_None [of f rows] by (cases ?found) auto
    from find_processed_Some [OF d] d show ?thesis
      by (auto simp: read_resource_pdf)
  qed
  show "handle_read_resource tbl (UriStr u) = Inl (ValueError (''Unsupported URI scheme: '' @ u))"
    if "\<not> startswith u ''pdf://''"
    using that by (simp add: handle_read_resource_def)
  show "handle_read_resource (Inr rows) (UriStr (pdf_uri g))
             = Inl (ValueError (''Document not found: '' @ g))"
    if "g \<notin> processed_filenames rows"
    using that find_processed_None [of g rows] by (auto simp: read_resource_pdf)
qed

text \<open>
  C4. The code does not keep the round trip for every table. The listing builds a
  \<^verbatim>\<open>Resource\<close> from the text \<^verbatim>\<open>pdf://<filename>\<close> without escaping the filename: as soon
  as one processed row has a filename whose text the \<^verbatim>\<open>Resource\<close> type rejects, the
  listing raises the validation error of such a row and returns no handle at all, also
  for the rows whose names are accepted. A read that arrives through the server hands the
  function a URL object, and \<^verbatim>\<open>uri.startswith\<close> raises for every URI before any lookup.
\<close>

theorem resources_fail_on_server_path:
  "(d \<in> set rows \<and> processed d \<and> \<not> valid_uri (pdf_uri (filename d)) \<longrightarrow>
      (\<exists>bad \<in> set rows. processed bad \<and> \<not> valid_uri (pdf_uri (filename bad)) \<and>
         handle_list_resources valid_uri (Inr rows)
           = Inl (ValidationError (pdf_uri (filename bad))))) \<and>
   handle_read_resource tbl (UriObject url) = Inl (AttributeError ''startswith'')"
proof -
  have listing: "d \<in> set rows \<and> processed d \<and> \<not> valid_uri (pdf_uri (filename d)) \<longrightarrow>
      (\<exists>bad \<in> set rows. processed bad \<and> \<not> valid_uri (pdf_uri (filename bad)) \<and>
         handle_list_resources valid_uri (Inr rows)
           = Inl (ValidationError (pdf_uri (filename bad))))"
  proof
    assume a: "d \<in> set rows \<and> processed d \<and> \<not> valid_uri (pdf_uri (filename d))"
    then have "d \<in> set (filter processed rows)" by simp
    from build_resources_invalid [OF this] a
    obtain bad where "bad \<in> set (filter processed rows)"
        "\<not> valid_uri (pdf_uri (filename bad))"
        "build_resources valid_uri (filter processed rows)
           = Inl (ValidationError (pdf_uri (filename bad)))"
      by blast
    then show "\<exists>bad \<in> set rows. processed bad \<and> \<not> valid_uri (pdf_uri (filename bad)) \<and>
         handle_list_resources valid_uri (Inr rows)
           = Inl (ValidationError (pdf_uri (filename bad)))"
      by (auto simp: handle_list_resources_def bind_exn_def)
  qed
  have reading: "handle_read_resource tbl (UriObject url) = Inl (AttributeError ''startswith'')"
    by (simp add: handle_read_resource_def)
  from listing reading show ?thesis by blast
qed

theorem resources_fail_on_server_path_witness:
  "spaced_doc \<in> set [report_doc, spaced_doc] \<and> processed spaced_doc \<and>
   \<not> without_space (pdf_uri (filename spaced_doc)) \<and>
   handle_list_resources without_space (Inr [report_doc, spaced_doc])
     = Inl (ValidationError ''pdf://My Report.pdf'') \<and>
   handle_read_resource (Inr [report_doc, spaced_doc]) (UriObject ''pdf://report.pdf'')
     = Inl (AttributeError ''startswith'') \<and>
   handle_read_resource (Inr [report_doc, spaced_doc]) (UriStr ''pdf://report.pdf'')
     = Inr (''Document: report.pdf\<newline>'' @
            ''Pages: 10\<newline>'' @
            ''Status: Processed\<newline>'' @
            ''Upload Date: 2024-01-01 00:00:00\<newline>'' @
            ''File Size: 1024 bytes'')"
proof -
  have h: "spaced_doc \<in> set [report_doc, spaced_doc] \<and> processed spaced_doc \<and>
      \<not> without_space (pdf_uri (filename spaced_doc))"
    by (simp add: spaced_doc_def without_space_def pdf_uri_def)
  have only: "\<And>bad. bad \<in> set [report_doc, spaced_doc] \<Longrightarrow>
      \<not> without_space (pdf_uri (filename bad)) \<Longrightarrow> pdf_uri (filename bad) = ''pdf://My Report.pdf''"
    by (auto simp: spaced_doc_def report_doc_def without_space_def pdf_uri_def)
  have direct: "handle_read_resource (Inr [report_doc, spaced_doc]) (UriStr ''pdf://report.pdf'')
      = Inr (''Document: report.pdf\<newline>'' @
             ''Pages: 10\<newline>'' @
             ''Status: Processed\<newline>'' @
             ''Upload Date: 2024-01-01 00:00:00\<newline>'' @
             ''File Size: 1024 bytes'')"
    by (simp add: handle_read_resource_def startswith_def bind_exn_def Let_def report_doc_def
          resource_summary_def str_int_def str_nat.simps)
  from resources_fail_on_server_path
         [of spaced_doc "[report_doc, spaced_doc]" without_space
             "Inr [report_doc, spaced_doc]" "''pdf://report.pdf''"] h
  obtain bad where "bad \<in> set [report_doc, spaced_doc]"
      "\<not> without_space (pdf_uri (filename bad))"
      "handle_list_resources without_space (Inr [report_doc, spaced_doc])
         = Inl (ValidationError (pdf_uri (filename bad)))"
      and rd: "handle_read_resource (Inr [report_doc, spaced_doc]) (UriObject ''pdf://report.pdf'')
         = Inl (AttributeError ''startswith'')"
    by blast
  with only have "handle_list_resources without_space (Inr [report_doc, spaced_doc])
      = Inl (ValidationError ''pdf://My Report.pdf'')"
    by simp
  with h rd direct show ?thesis by blast
qed

text \<open>
  C5. Whatever the tool name, the arguments, the search engine and the table read are,
  \<^verbatim>\<open>handle_call_tool\<close> returns one text content and no exception leaves it. A name other
  than the three tools yields the text "Unknown tool: <name>"; a search-engine failure,
  a missing document, a missing argument and a failing database query each yield their
  own message.
\<close>

theorem call_tool_never_raises:
  "(\<exists>txt. fst (handle_call_tool search tbl nm args) = Inr [txt]) \<and>
   (nm \<notin> known_tools \<longrightarrow>
      handle_call_tool search tbl nm args = (Inr [''Unknown tool: '' @ nm], [])) \<and>
   (q \<noteq> [] \<and> search q (get_arg (arg_limit args) 5) = Inl e \<longrightarrow>
      fst (handle_call_tool search tbl ''search_documents'' (args\<lparr>arg_query := Some q\<rparr>))
        = Inr [''Error performing search: '' @ str_exn e]) \<and>
   (g \<noteq> [] \<and> find (\<lambda>doc. filename doc = g) rows = None \<longrightarrow>
      fst (handle_call_tool search (Inr rows) ''get_document_info''
             (args\<lparr>arg_filename := Some g\<rparr>))
        = Inr [''Document '' @ apostrophe @ g @ apostrophe @ '' not found.'']) \<and>
   fst (handle_call_tool search tbl ''get_document_info'' (args\<lparr>arg_filename := None\<rparr>))
     = Inr [''Error: Filename is required''] \<and>
   fst (handle_call_tool search (Inl e') ''list_documents'' args)
     = Inr [''Error listing documents: '' @ str_exn e'] \<and>
   fst (handle_call_tool search (Inl e') ''get_document_info'' (args\<lparr>arg_filename := Some g\<rparr>))
     = Inr [if g = [] then ''Error: Filename is required''
            else ''Error getting document info: '' @ str_exn e']"
proof -
  have total: "\<exists>txt. fst (handle_call_tool search tbl nm args) = Inr [txt]"
    by (auto simp: handle_call_tool_def Let_def try_except_def bind_exn_def
             split: sum.splits option.splits)
  have unknown: "nm \<notin> known_tools \<longrightarrow>
      handle_call_tool search tbl nm args = (Inr [''Unknown tool: '' @ nm], [])"
    by (simp add: handle_call_tool_def known_tools_def)
  have engine: "q \<noteq> [] \<and> search q (get_arg (arg_limit args) 5) = Inl e \<longrightarrow>
      fst (handle_call_tool search tbl ''search_documents'' (args\<lparr>arg_query := Some q\<rparr>))
        = Inr [''Error performing search: '' @ str_exn e]"
    by (simp add: handle_call_tool_def Let_def get_arg_def try_except_def bind_exn_def)
  have absent: "g \<noteq> [] \<and> find (\<lambda>doc. filename doc = g) rows = None \<longrightarrow>
      fst (handle_call_tool search (Inr rows) ''get_document_info''
             (args\<lparr>arg_filename := Some g\<rparr>))
        = Inr [''Document '' @ apostrophe @ g @ apostrophe @ '' not found.'']"
    by (simp add: handle_call_tool_def Let_def get_arg_def try_except_def bind_exn_def)
  have noname:
    "fst (handle_call_tool search tbl ''get_document_info'' (args\<lparr>arg_filename := None\<rparr>))
       = Inr [''Error: Filename is required'']"
    by (simp add: handle_call_tool_def get_arg_def)
  have dbfail: "fst (handle_call_tool search (Inl e') ''list_documents'' args)
      = Inr [''Error listing documents: '' @ str_exn e']"
    by (simp add: handle_call_tool_def try_except_def bind_exn_def)
  have dbfail': "fst (handle_call_tool search (Inl e') ''get_document_info''
                       (args\<lparr>arg_filename := Some g\<rparr>))
      = Inr [if g = [] then ''Error: Filename is required''
             else ''Error getting document info: '' @ str_exn e']"
    by (simp add: handle_call_tool_def try_except_def bind_exn_def get_arg_def Let_def)
  from total unknown engine absent noname dbfail dbfail' show ?thesis by blast
qed

theorem call_tool_never_raises_witness:
  "''frobnicate'' \<notin> known_tools \<and>
   handle_call_tool failing_search (Inr example_rows) ''frobnicate'' no_arguments
     = (Inr [''Unknown tool: frobnicate''], []) \<and>
   fst (handle_call_tool failing_search (Inr example_rows) ''search_documents''
          (no_arguments\<lparr>arg_query := Some ''tax''\<rparr>))
     = Inr [''Error performing search: index offline''] \<and>
   fst (handle_call_tool failing_search (Inr example_rows) ''get_document_info''
          (no_arguments\<lparr>arg_filename := Some ''missing.pdf''\<rparr>))
     = Inr [''Document '' @ apostrophe @ ''missing.pdf'' @ apostrophe @ '' not found.'']"
proof -
  have h1: "''frobnicate'' \<notin> known_tools"
    by (simp add: known_tools_def)
  have h2: "''tax'' \<noteq> [] \<and>
      failing_search ''tax'' (get_arg (arg_limit no_arguments) 5) = Inl (Exception ''index offline'')"
    by (simp add: failing_search_def)
  have h3: "''missing.pdf'' \<noteq> [] \<and>
      find (\<lambda>doc. filename doc = ''missing.pdf'') example_rows = None"
    by (simp add: example_rows_def report_doc_def draft_doc_def bad_doc_def)
  have s1: "str_exn (Exception ''index offline'') = ''index offline''"
    by simp
  from call_tool_never_raises
         [of failing_search "Inr example_rows" "''frobnicate''" no_arguments "''tax''"
             "Exception ''index offline''" "''missing.pdf''" example_rows]
       h1 h2 h3
  have "handle_call_tool failing_search (Inr example_rows) ''frobnicate'' no_arguments
          = (Inr [''Unknown tool: '' @ ''frobnicate''], []) \<and>
        fst (handle_call_tool failing_search (Inr example_rows) ''search_documents''
               (no_arguments\<lparr>arg_query := Some ''tax''\<rparr>))
          = Inr [''Error performing search: '' @ str_exn (Exception ''index offline'')] \<and>
        fst (handle_call_tool failing_search (Inr example_rows) ''get_document_info''
               (no_arguments\<lparr>arg_filename := Some ''missing.pdf''\<rparr>))
          = Inr [''Document '' @ apostrophe @ ''missing.pdf'' @ apostrophe @ '' not found.'']"
    by blast
  with h1 show ?thesis by (simp only: s1 append.simps) simp
qed

lemma doc_entry_layout: "doc_entry d = entry_layout d (derived_status d)"
  by (simp add: doc_entry_def entry_layout_def derived_status_def status_symbol_def Let_def)

lemma document_info_ready:
  "processed d \<and> chunks_count d > 0 \<Longrightarrow>
     document_info d = info_layout d (derived_status d) @ ready_statement (chunks_count d)"
  by (simp add: document_info_def info_layout_def derived_status_def ready_statement_def Let_def)

lemma document_info_in_progress:
  "\<not> (processed d \<and> chunks_count d > 0) \<and> processing d \<Longrightarrow>
     document_info d = info_layout d (derived_status d) @ in_progress_statement"
  by (auto simp: document_info_def info_layout_def derived_status_def in_progress_statement_def Let_def)

lemma document_info_incomplete:
  "\<not> (processed d \<and> chunks_count d > 0) \<and> \<not> processing d \<Longrightarrow>
     document_info d = info_layout d (derived_status d) @ incomplete_statement"
  by (auto simp: document_info_def info_layout_def derived_status_def incomplete_statement_def Let_def)

lemma statements_distinct:
  "ready_statement n \<noteq> in_progress_statement \<and>
   ready_statement n \<noteq> incomplete_statement \<and>
   in_progress_statement \<noteq> incomplete_statement"
  by (simp add: ready_statement_def in_progress_statement_def incomplete_statement_def)

lemma list_documents_rows:
  "rows \<noteq> [] \<Longrightarrow>
   handle_call_tool search (Inr rows) ''list_documents'' args
     = (Inr [concat (''Available documents in the knowledge base:\<newline>\<newline>'' #
                     map doc_entry rows)], [])"
  by (simp add: handle_call_tool_def try_except_def bind_exn_def)

lemma get_document_info_found:
  "g \<noteq> [] \<Longrightarrow> find (\<lambda>doc. filename doc = g) rows = Some d \<Longrightarrow>
   handle_call_tool search (Inr rows) ''get_document_info'' (args\<lparr>arg_filename := Some g\<rparr>)
     = (Inr [document_info d], [])"
  by (simp add: handle_call_tool_def try_except_def bind_exn_def get_arg_def Let_def)

text \<open>
  C7. \<^verbatim>\<open>list_documents\<close> renders every row with its derived status, and
  \<^verbatim>\<open>get_document_info\<close> renders the row it finds with the same derived status:
  completed when \<open>processed\<close> is set, processing when \<open>processed\<close> is clear and
  \<open>processing\<close> is set, failed otherwise. \<^verbatim>\<open>get_document_info\<close> then appends exactly one
  of three distinct statements: the readiness statement with the chunk count when
  \<open>processed\<close> is set and the chunk count is positive; else the in-progress statement
  when the \<open>processing\<close> flag is set; else the statement that processing may have
  failed or is incomplete.
\<close>

theorem status_and_readiness:
  "(rows \<noteq> [] \<longrightarrow>
      handle_call_tool search (Inr rows) ''list_documents'' args
        = (Inr [concat (''Available documents in the knowledge base:\<newline>\<newline>'' #
                        map (\<lambda>d. entry_layout d (derived_status d)) rows)], [])) \<and>
   (g \<noteq> [] \<and> find (\<lambda>doc. filename doc = g) rows = Some d \<longrightarrow>
      handle_call_tool search (Inr rows) ''get_document_info'' (args\<lparr>arg_filename := Some g\<rparr>)
        = (Inr [document_info d], [])) \<and>
   (processed d1 \<and> chunks_count d1 > 0 \<longrightarrow>
      document_info d1 = info_layout d1 (derived_status d1) @ ready_statement (chunks_count d1)) \<and>
   (\<not> (processed d2 \<and> chunks_count d2 > 0) \<and> processing d2 \<longrightarrow>
      document_info d2 = info_layout d2 (derived_status d2) @ in_progress_statement) \<and>
   (\<not> (processed d3 \<and> chunks_count d3 > 0) \<and> \<not> processing d3 \<longrightarrow>
      document_info d3 = info_layout d3 (derived_status d3) @ incomplete_statement) \<and>
   ready_statement n \<noteq> in_progress_statement \<and>
   ready_statement n \<noteq> incomplete_statement \<and>
   in_progress_statement \<noteq> incomplete_statement"
proof -
  have entries: "map doc_entry rows = map (\<lambda>d. entry_layout d (derived_status d)) rows"
    by (simp add: doc_entry_layout)
  have listing: "rows \<noteq> [] \<longrightarrow>
      handle_call_tool search (Inr rows) ''list_documents'' args
        = (Inr [concat (''Available documents in the knowledge base:\<newline>\<newline>'' #
                        map (\<lambda>d. entry_layout d (derived_status d)) rows)], [])"
    using list_documents_rows [of rows search args] by (simp only: entries) blast
  from listing get_document_info_found [of g rows d search args]
       document_info_ready [of d1] document_info_in_progress [of d2]
       document_info_incomplete [of d3] statements_distinct [of n]
  show ?thesis by blast
qed

theorem status_and_readiness_witness:
  "example_rows \<noteq> [] \<and>
   find (\<lambda>doc. filename doc = ''report.pdf'') example_rows = Some report_doc \<and>
   handle_call_tool failing_search (Inr example_rows) ''list_documents'' no_arguments
     = (Inr [concat (''Available documents in the knowledge base:\<newline>\<newline>'' #
                     map (\<lambda>d. entry_layout d (derived_status d)) example_rows)], []) \<and>
   handle_call_tool failing_search (Inr example_rows) ''get_document_info''
       (no_arguments\<lparr>arg_filename := Some ''report.pdf''\<rparr>)
     = (Inr [document_info report_doc], []) \<and>
   document_info report_doc
     = info_layout report_doc ''completed'' @ ready_statement 42 \<and>
   document_info draft_doc
     = info_layout draft_doc ''processing'' @ in_progress_statement \<and>
   document_info bad_doc
     = info_layout bad_doc ''failed'' @ incomplete_statement"
proof -
  have h0: "example_rows \<noteq> []"
    by (simp add: example_rows_def)
  have h1: "''report.pdf'' \<noteq> [] \<and>
      find (\<lambda>doc. filename doc = ''report.pdf'') example_rows = Some report_doc"
    by (simp add: example_rows_def report_doc_def)
  have h2: "processed report_doc \<and> chunks_count report_doc > 0"
    by (simp add: report_doc_def)
  have h3: "\<not> (processed draft_doc \<and> chunks_count draft_doc > 0) \<and> processing draft_doc"
    by (simp add: draft_doc_def)
  have h4: "\<not> (processed bad_doc \<and> chunks_count bad_doc > 0) \<and> \<not> processing bad_doc"
    by (simp add: bad_doc_def)
  have st: "derived_status report_doc = ''completed'' \<and> chunks_count report_doc = 42 \<and>
      derived_status draft_doc = ''processing'' \<and> derived_status bad_doc = ''failed''"
    by (simp add: derived_status_def report_doc_def draft_doc_def bad_doc_def)
  from status_and_readiness
         [of example_rows failing_search no_arguments "''report.pdf''" report_doc
             report_doc draft_doc bad_doc 0]
       h0 h1 h2 h3 h4
  have "handle_call_tool failing_search (Inr example_rows) ''list_documents'' no_arguments
     = (Inr [concat (''Available documents in the knowledge base:\<newline>\<newline>'' #
                     map (\<lambda>d. entry_layout d (derived_status d)) example_rows)], []) \<and>
   handle_call_tool failing_search (Inr example_rows) ''get_document_info''
       (no_arguments\<lparr>arg_filename := Some ''report.pdf''\<rparr>)
     = (Inr [document_info report_doc], []) \<and>
   document_info report_doc
     = info_layout report_doc (derived_status report_doc) @
         ready_statement (chunks_count report_doc) \<and>
   document_info draft_doc
     = info_layout draft_doc (derived_status draft_doc) @ in_progress_statement \<and>
   document_info bad_doc
     = info_layout bad_doc (derived_status bad_doc) @ incomplete_statement"
    by blast
  with h0 h1 st show ?thesis by (simp only:) blast
qed

section \<open>The uploader, step by step\<close>

lemma filename_new_document [simp]:
  "filename (new_document dflt i fname dest fsize) = fname"
  by (simp add: new_document_def)

lemma doc_id_new_document [simp]:
  "doc_id (new_document dflt i fname dest fsize) = i"
  by (simp add: new_document_def)

lemma flags_new_document [simp]:
  "processing (new_document dflt i fname dest fsize) \<and>
   \<not> processed (new_document dflt i fname dest fsize)"
  by (simp add: new_document_def)

lemma store_and_process_failed_copy:
  "copy2 w pdf_path (path_join (uploads_dir self) fname) = Inl e \<Longrightarrow>
   store_and_process self dflt pdf_path fname fsize out cs w =
     \<lparr> returned = False, stdout = out @ [UploadError e], commits = cs,
       engine_calls = [], final = w \<rparr>"
  by (simp add: store_and_process_def)

lemma store_and_process_copied:
  assumes "copy2 w pdf_path (path_join (uploads_dir self) fname) = Inr files'"
    and "pdf_processor self (fresh_id (db w)) (path_join (uploads_dir self) fname) fname
           (db w @ [new_document dflt (fresh_id (db w)) fname
                      (path_join (uploads_dir self) fname) fsize]) = (r, rows3)"
  shows "store_and_process self dflt pdf_path fname fsize out cs w =
     \<lparr> returned = (r = None),
       stdout = out @ [CopiedTo (path_join (uploads_dir self) fname),
                       CreatedRecord (fresh_id (db w)), StartingProcessing] @
                (case r of None \<Rightarrow> [ProcessingCompleted, ProcessingSucceeded, NowAvailable fname]
                 | Some e \<Rightarrow> [ProcessingError e, ProcessingFailed]),
       commits = cs @ [db w @ [new_document dflt (fresh_id (db w)) fname
                                 (path_join (uploads_dir self) fname) fsize]],
       engine_calls = [(fresh_id (db w), path_join (uploads_dir self) fname, fname)],
       final = w\<lparr>db := rows3, files := files'\<rparr> \<rparr>"
  using assms
  by (cases r) (simp_all add: store_and_process_def process_pdf_async_def Let_def)

lemma upload_invalid:
  "\<not> valid_source w pdf_path \<Longrightarrow>
   commits (upload_and_process_pdf self dflt pdf_path response w) = [] \<and>
   engine_calls (upload_and_process_pdf self dflt pdf_path response w) = [] \<and>
   final (upload_and_process_pdf self dflt pdf_path response w) = w \<and>
   returned (upload_and_process_pdf self dflt pdf_path response w) = False"
  by (auto simp: valid_source_def upload_and_process_pdf_def)

lemma valid_source_bytes:
  "valid_source w pdf_path \<Longrightarrow> \<exists>bytes. files w pdf_path = Some bytes"
  by (auto simp: valid_source_def path_exists_def)

lemma upload_fresh:
  assumes "valid_source w pdf_path" and "files w pdf_path = Some bytes"
    and "find (\<lambda>d. filename d = basename pdf_path) (db w) = None"
  shows "upload_and_process_pdf self dflt pdf_path response w =
     store_and_process self dflt pdf_path (basename pdf_path) (length bytes)
       [ProcessingPdf (basename pdf_path), FileSize (length bytes)] [] w"
  using assms by (simp add: upload_and_process_pdf_def valid_source_def getsize_def Let_def)

lemma upload_cancelled:
  assumes "valid_source w pdf_path" and "files w pdf_path = Some bytes"
    and "find (\<lambda>d. filename d = basename pdf_path) (db w) = Some existing"
    and "lower response \<noteq> ''y''"
  shows "upload_and_process_pdf self dflt pdf_path response w =
     \<lparr> returned = False,
       stdout = [ProcessingPdf (basename pdf_path), FileSize (length bytes),
                 AlreadyExists (basename pdf_path), ReprocessPrompt, UploadCancelled],
       commits = [], engine_calls = [], final = w \<rparr>"
  using assms by (simp add: upload_and_process_pdf_def valid_source_def getsize_def Let_def)

lemma upload_confirmed:
  assumes "valid_source w pdf_path" and "files w pdf_path = Some bytes"
    and "find (\<lambda>d. filename d = basename pdf_path) (db w) = Some existing"
    and "lower response = ''y''"
  shows "upload_and_process_pdf self dflt pdf_path response w =
     store_and_process self dflt pdf_path (basename pdf_path) (length bytes)
       [ProcessingPdf (basename pdf_path), FileSize (length bytes),
        AlreadyExists (basename pdf_path), ReprocessPrompt, DeletedRecord]
       [filter (\<lambda>d. doc_id d \<noteq> doc_id existing) (db w)]
       (w\<lparr>db := filter (\<lambda>d. doc_id d \<noteq> doc_id existing) (db w)\<rparr>)"
  using assms by (simp add: upload_and_process_pdf_def valid_source_def getsize_def Let_def)

lemma find_filename_Some:
  "find (\<lambda>d. filename d = f) rows = Some ex \<Longrightarrow> ex \<in> set rows \<and> filename ex = f"
  by (auto simp: find_Some_iff)

lemma find_filename_None:
  "find (\<lambda>d. filename d = f) rows = None \<Longrightarrow> f \<notin> filename ` set rows"
  by (auto simp: find_None_iff)

lemma deleted_leaves_no_live_record:
  assumes "at_most_one_live rows" and "find (\<lambda>d. filename d = f) rows = Some ex"
  shows "f \<notin> filename ` set (filter (\<lambda>d. doc_id d \<noteq> doc_id ex) rows)"
proof
  assume "f \<in> filename ` set (filter (\<lambda>d. doc_id d \<noteq> doc_id ex) rows)"
  then obtain d where d: "d \<in> set rows" "filename d = f" "doc_id d \<noteq> doc_id ex"
    by auto
  from assms(2) have ex: "ex \<in> set rows" "filename ex = f"
    by (auto dest: find_filename_Some)
  from assms(1) have "inj_on filename (set rows)"
    by (simp add: at_most_one_live_def distinct_map)
  with d ex have "d = ex" by (auto dest: inj_onD)
  with d(3) show False by simp
qed

lemma at_most_one_live_filter:
  "at_most_one_live rows \<Longrightarrow> at_most_one_live (filter P rows)"
  by (simp add: at_most_one_live_def distinct_map_filter)

lemma at_most_one_live_append:
  "at_most_one_live rows \<Longrightarrow> filename d \<notin> filename ` set rows \<Longrightarrow>
   at_most_one_live (rows @ [d])"
  by (simp add: at_most_one_live_def)

lemma commits_store_and_process:
  "c \<in> set (commits (store_and_process self dflt pdf_path fname fsize out cs w)) \<Longrightarrow>
   c \<in> set cs \<or>
   c = db w @ [new_document dflt (fresh_id (db w)) fname (path_join (uploads_dir self) fname) fsize]"
  by (auto simp: store_and_process_def process_pdf_async_def Let_def
           split: sum.splits prod.splits option.splits)

lemma final_store_and_process:
  "db (final (store_and_process self dflt pdf_path fname fsize out cs w)) = db w \<or>
   db (final (store_and_process self dflt pdf_path fname fsize out cs w)) =
     snd (pdf_processor self (fresh_id (db w)) (path_join (uploads_dir self) fname) fname
            (db w @ [new_document dflt (fresh_id (db w)) fname
                       (path_join (uploads_dir self) fname) fsize]))"
  by (auto simp: store_and_process_def process_pdf_async_def Let_def
           split: sum.splits prod.splits option.splits)

lemma store_and_process_one_live:
  assumes "at_most_one_live (db w)" and "fname \<notin> filename ` set (db w)"
    and "\<forall>c \<in> set cs. at_most_one_live c"
  shows "(\<forall>c \<in> set (commits (store_and_process self dflt pdf_path fname fsize out cs w)).
            at_most_one_live c) \<and>
         (engine_keeps self at_most_one_live \<longrightarrow>
            at_most_one_live (db (final (store_and_process self dflt pdf_path fname fsize out cs w))))"
proof -
  let ?new = "new_document dflt (fresh_id (db w)) fname (path_join (uploads_dir self) fname) fsize"
  have new: "at_most_one_live (db w @ [?new])"
    using assms(1,2) by (simp add: at_most_one_live_append)
  have c: "\<forall>c \<in> set (commits (store_and_process self dflt pdf_path fname fsize out cs w)).
            at_most_one_live c"
    using commits_store_and_process [of _ self dflt pdf_path fname fsize out cs w] assms(3) new
    by blast
  have f: "engine_keeps self at_most_one_live \<longrightarrow>
            at_most_one_live (db (final (store_and_process self dflt pdf_path fname fsize out cs w)))"
    using final_store_and_process [of self dflt pdf_path fname fsize out cs w] assms(1) new
    by (auto simp: engine_keeps_def)
  from c f show ?thesis by blast
qed

lemma no_live_records:
  "f \<notin> filename ` set rows \<Longrightarrow> live_records rows f = []"
  by (force simp: live_records_def filter_empty_conv)

lemma commits_store_and_process_hd:
  "commits (store_and_process self dflt pdf_path fname fsize out (c # cs) w) \<noteq> [] \<and>
   hd (commits (store_and_process self dflt pdf_path fname fsize out (c # cs) w)) = c"
  by (auto simp: store_and_process_def process_pdf_async_def Let_def
           split: sum.splits prod.splits option.splits)

lemma no_overlap_filter: "no_overlap rows \<Longrightarrow> no_overlap (filter P rows)"
  by (simp add: no_overlap_def list_all_iff)

lemma no_overlap_append_new:
  "no_overlap rows \<Longrightarrow> no_overlap (rows @ [new_document dflt i fname dest fsize])"
  by (simp add: no_overlap_def)

lemma store_and_process_no_overlap:
  assumes "no_overlap (db w)" and "\<forall>c \<in> set cs. no_overlap c"
  shows "(\<forall>c \<in> set (commits (store_and_process self dflt pdf_path fname fsize out cs w)).
            no_overlap c) \<and>
         (engine_keeps self no_overlap \<longrightarrow>
            no_overlap (db (final (store_and_process self dflt pdf_path fname fsize out cs w))))"
proof -
  let ?new = "new_document dflt (fresh_id (db w)) fname (path_join (uploads_dir self) fname) fsize"
  have new: "no_overlap (db w @ [?new])"
    using assms(1) by (rule no_overlap_append_new)
  have c: "\<forall>c \<in> set (commits (store_and_process self dflt pdf_path fname fsize out cs w)).
            no_overlap c"
    using commits_store_and_process [of _ self dflt pdf_path fname fsize out cs w] assms(2) new
    by blast
  have f: "engine_keeps self no_overlap \<longrightarrow>
            no_overlap (db (final (store_and_process self dflt pdf_path fname fsize out cs w)))"
    using final_store_and_process [of self dflt pdf_path fname fsize out cs w] assms(1) new
    by (auto simp: engine_keeps_def)
  from c f show ?thesis by blast
qed

lemma store_and_process_created:
  assumes "set (db w) \<subseteq> R" and "\<forall>c \<in> set cs. set c \<subseteq> R"
  shows "\<forall>c \<in> set (commits (store_and_process self dflt pdf_path fname fsize out cs w)).
           \<forall>d \<in> set c. d \<in> R \<or> (processing d \<and> \<not> processed d)"
proof (intro ballI)
  fix c d
  assume c: "c \<in> set (commits (store_and_process self dflt pdf_path fname fsize out cs w))"
    and d: "d \<in> set c"
  from commits_store_and_process [OF c] show "d \<in> R \<or> (processing d \<and> \<not> processed d)"
  proof
    assume "c \<in> set cs"
    with assms(2) d show ?thesis by blast
  next
    assume "c = db w @ [new_document dflt (fresh_id (db w)) fname
                          (path_join (uploads_dir self) fname) fsize]"
    with assms(1) d show ?thesis by auto
  qed
qed

lemma store_and_process_called:
  assumes "engine_calls (store_and_process self dflt pdf_path fname fsize out cs w) \<noteq> []"
  shows "commits (store_and_process self dflt pdf_path fname fsize out cs w)
           = cs @ [db w @ [new_document dflt (fresh_id (db w)) fname
                             (path_join (uploads_dir self) fname) fsize]] \<and>
         engine_calls (store_and_process self dflt pdf_path fname fsize out cs w)
           = [(fresh_id (db w), path_join (uploads_dir self) fname, fname)]"
  using assms
  by (auto simp: store_and_process_def process_pdf_async_def Let_def
           split: sum.splits prod.splits option.splits)

lemma store_and_process_engine_result:
  assumes "engine_calls (store_and_process self dflt pdf_path fname fsize out cs w) = [(i, p, f)]"
    and "pdf_processor self i p f
           (last (commits (store_and_process self dflt pdf_path fname fsize out cs w))) = (r, rows3)"
  shows "returned (store_and_process self dflt pdf_path fname fsize out cs w) = (r = None) \<and>
         db (final (store_and_process self dflt pdf_path fname fsize out cs w)) = rows3 \<and>
         (\<exists>pre. stdout (store_and_process self dflt pdf_path fname fsize out cs w) =
            pre @ (case r of None \<Rightarrow> [ProcessingCompleted, ProcessingSucceeded, NowAvailable fname]
                   | Some e \<Rightarrow> [ProcessingError e, ProcessingFailed]))"
proof (cases "copy2 w pdf_path (path_join (uploads_dir self) fname)")
  case (Inl e)
  from store_and_process_failed_copy [OF Inl] assms(1) show ?thesis by simp
next
  case (Inr files')
  let ?new = "new_document dflt (fresh_id (db w)) fname (path_join (uploads_dir self) fname) fsize"
  obtain r' rows' where eng: "pdf_processor self (fresh_id (db w))
      (path_join (uploads_dir self) fname) fname (db w @ [?new]) = (r', rows')"
    by (cases "pdf_processor self (fresh_id (db w))
      (path_join (uploads_dir self) fname) fname (db w @ [?new])") blast
  note shape = store_and_process_copied [OF Inr eng, of out cs]
  from shape assms(1) have ids: "i = fresh_id (db w)" "p = path_join (uploads_dir self) fname" "f = fname"
    by auto
  from shape assms(2) eng ids have same: "r' = r" "rows' = rows3"
    by simp_all
  have "stdout (store_and_process self dflt pdf_path fname fsize out cs w) =
      (out @ [CopiedTo (path_join (uploads_dir self) fname),
              CreatedRecord (fresh_id (db w)), StartingProcessing]) @
      (case r of None \<Rightarrow> [ProcessingCompleted, ProcessingSucceeded, NowAvailable fname]
       | Some e \<Rightarrow> [ProcessingError e, ProcessingFailed])"
    using shape same by simp
  then have "\<exists>pre. stdout (store_and_process self dflt pdf_path fname fsize out cs w) =
      pre @ (case r of None \<Rightarrow> [ProcessingCompleted, ProcessingSucceeded, NowAvailable fname]
       | Some e \<Rightarrow> [ProcessingError e, ProcessingFailed])"
    by blast
  with shape same show ?thesis by simp
qed

lemma upload_engine_result:
  fixes self dflt pdf_path response w
  defines "out \<equiv> upload_and_process_pdf self dflt pdf_path response w"
  assumes "engine_calls out = [(i, p, f)]"
    and "pdf_processor self i p f (last (commits out)) = (r, rows3)"
  shows "returned out = (r = None) \<and> db (final out) = rows3 \<and>
         (\<exists>pre. stdout out =
            pre @ (case r of None \<Rightarrow> [ProcessingCompleted, ProcessingSucceeded,
                                        NowAvailable (basename pdf_path)]
                   | Some e \<Rightarrow> [ProcessingError e, ProcessingFailed]))"
proof (cases "valid_source w pdf_path")
  case False
  from upload_invalid [OF False, of self dflt response] assms(2) show ?thesis
    by (simp add: out_def)
next
  case True
  then obtain bytes where bytes: "files w pdf_path = Some bytes"
    by (auto dest: valid_source_bytes)
  show ?thesis
  proof (cases "find (\<lambda>d. filename d = basename pdf_path) (db w)")
    case None
    have out: "out = store_and_process self dflt pdf_path (basename pdf_path) (length bytes)
       [ProcessingPdf (basename pdf_path), FileSize (length bytes)] [] w"
      unfolding out_def using True bytes None by (rule upload_fresh)
    from assms(2,3) show ?thesis
      unfolding out by (rule store_and_process_engine_result)
  next
    case (Some ex)
    show ?thesis
    proof (cases "lower response = ''y''")
      case no: False
      from upload_cancelled [OF True bytes Some no, of self dflt] assms(2)
      show ?thesis by (simp add: out_def)
    next
      case yes: True
      have out: "out = store_and_process self dflt pdf_path (basename pdf_path) (length bytes)
         [ProcessingPdf (basename pdf_path), FileSize (length bytes),
          AlreadyExists (basename pdf_path), ReprocessPrompt, DeletedRecord]
         [filter (\<lambda>d. doc_id d \<noteq> doc_id ex) (db w)]
         (w\<lparr>db := filter (\<lambda>d. doc_id d \<noteq> doc_id ex) (db w)\<rparr>)"
        unfolding out_def using True bytes Some yes by (rule upload_confirmed)
      from assms(2,3) show ?thesis
        unfolding out by (rule store_and_process_engine_result)
    qed
  qed
qed

lemma entry_failed:
  "\<not> processing d \<and> \<not> processed d \<Longrightarrow> doc_entry d = entry_layout d ''failed''"
  by (simp add: doc_entry_layout derived_status_def)

lemma entry_processing:
  "processing d \<and> \<not> processed d \<Longrightarrow> doc_entry d = entry_layout d ''processing''"
  by (simp add: doc_entry_layout derived_status_def)

lemma failed_symbol: "status_symbol ''failed'' = cross_mark"
  by (simp add: status_symbol_def)

lemma write_file_plain:
  "aliases w = (\<lambda>a b. False) \<Longrightarrow> write_file w dst bytes = (files w)(dst \<mapsto> bytes)"
  by (auto simp: write_file_def samefile_def fun_eq_iff)

lemmas run_defs =
  upload_and_process_pdf_def store_and_process_def process_pdf_async_def
  path_exists_def endswith_def lower_def lower_char_def getsize_def basename_def
  path_join_def startswith_def copy2_def samefile_def fresh_id_def Let_def new_document_def
  some_defaults_def valid_source_def

lemma bad_run_eq:
  "bad_run =
     \<lparr> returned = False,
       stdout = [ProcessingPdf ''bad.pdf'', FileSize 4, CopiedTo ''/srv/uploads/bad.pdf'',
                 CreatedRecord 1, StartingProcessing,
                 ProcessingError (EngineError ''cannot parse''), ProcessingFailed],
       commits = [[new_document some_defaults 1 ''bad.pdf'' ''/srv/uploads/bad.pdf'' 4]],
       engine_calls = [(1, ''/srv/uploads/bad.pdf'', ''bad.pdf'')],
       final = bad_world
                 \<lparr> db := [new_document some_defaults 1 ''bad.pdf'' ''/srv/uploads/bad.pdf'' 4],
                   files := [''/home/u/bad.pdf'' \<mapsto> ''%PDF'',
                             ''/srv/uploads/bad.pdf'' \<mapsto> ''%PDF''] \<rparr> \<rparr>"
  by (simp add: bad_run_def bad_world_def bad_uploader_def raising_engine_def run_defs
        write_file_plain)

lemma marked_run_eq:
  "marked_run =
     \<lparr> returned = False,
       stdout = [ProcessingPdf ''bad.pdf'', FileSize 4, CopiedTo ''/srv/uploads/bad.pdf'',
                 CreatedRecord 3, StartingProcessing,
                 ProcessingError (EngineError ''cannot parse''), ProcessingFailed],
       commits = [[draft_doc,
                   new_document some_defaults 3 ''bad.pdf'' ''/srv/uploads/bad.pdf'' 4]],
       engine_calls = [(3, ''/srv/uploads/bad.pdf'', ''bad.pdf'')],
       final = stuck_world
                 \<lparr> db := [draft_doc, failed_record],
                   files := [''/home/u/bad.pdf'' \<mapsto> ''%PDF'',
                             ''/srv/uploads/bad.pdf'' \<mapsto> ''%PDF''] \<rparr> \<rparr>"
  by (simp add: marked_run_def stuck_world_def marking_uploader_def marking_engine_def
        failed_record_def draft_doc_def run_defs write_file_plain)

lemma replace_run_eq:
  "replace_run =
     \<lparr> returned = True,
       stdout = [ProcessingPdf ''report.pdf'', FileSize 9, AlreadyExists ''report.pdf'',
                 ReprocessPrompt, DeletedRecord, CopiedTo ''/srv/uploads/report.pdf'',
                 CreatedRecord 1, StartingProcessing, ProcessingCompleted,
                 ProcessingSucceeded, NowAvailable ''report.pdf''],
       commits = [[], [new_document some_defaults 1 ''report.pdf''
                         ''/srv/uploads/report.pdf'' 9]],
       engine_calls = [(1, ''/srv/uploads/report.pdf'', ''report.pdf'')],
       final = replace_world
                 \<lparr> db := [new_document some_defaults 1 ''report.pdf''
                            ''/srv/uploads/report.pdf'' 9],
                   files := [''/home/u/report.pdf'' \<mapsto> ''new bytes'',
                             ''/archive/report.pdf'' \<mapsto> ''old bytes'',
                             ''/srv/uploads/report.pdf'' \<mapsto> ''new bytes''] \<rparr> \<rparr>"
  by (simp add: replace_run_def replace_world_def quiet_uploader_def quiet_engine_def
        old_report_def run_defs write_file_plain)

lemma declined_run_eq:
  "declined_run =
     \<lparr> returned = False,
       stdout = [ProcessingPdf ''report.pdf'', FileSize 9, AlreadyExists ''report.pdf'',
                 ReprocessPrompt, UploadCancelled],
       commits = [], engine_calls = [], final = replace_world \<rparr>"
  by (simp add: declined_run_def replace_world_def quiet_uploader_def quiet_engine_def
        old_report_def run_defs)

lemma in_place_run_eq:
  "in_place_run =
     \<lparr> returned = False,
       stdout = [ProcessingPdf ''report.pdf'', FileSize 9, AlreadyExists ''report.pdf'',
                 ReprocessPrompt, DeletedRecord,
                 UploadError (SameFileError ''/srv/uploads/report.pdf''
                                ''/srv/uploads/report.pdf'')],
       commits = [[]], engine_calls = [],
       final = in_place_world\<lparr>db := []\<rparr> \<rparr>"
  by (simp add: in_place_run_def in_place_world_def quiet_uploader_def quiet_engine_def
        stored_report_def run_defs)

lemma live_records_append_new:
  "live_records rows f = [] \<Longrightarrow>
   live_records (rows @ [new_document dflt i f dest fsize]) f
     = [new_document dflt i f dest fsize]"
  by (simp add: live_records_def)

lemma replace_hyps:
  "valid_source replace_world ''/home/u/report.pdf'' \<and>
   find (\<lambda>d. filename d = basename ''/home/u/report.pdf'') (db replace_world) = Some old_report \<and>
   lower ''Y'' = ''y'' \<and>
   ''/home/u/report.pdf'' \<noteq> path_join (uploads_dir quiet_uploader) (basename ''/home/u/report.pdf'') \<and>
   at_most_one_live (db replace_world) \<and>
   no_overlap (db replace_world)"
  by (simp add: replace_world_def old_report_def quiet_uploader_def at_most_one_live_def
        no_overlap_def run_defs)

lemma quiet_engine_keeps: "engine_keeps quiet_uploader P"
  by (simp add: engine_keeps_def quiet_uploader_def quiet_engine_def)

lemma samefile_db [simp]: "samefile (w\<lparr>db := rows\<rparr>) a b = samefile w a b"
  by (simp add: samefile_def)

lemma write_file_db [simp]: "write_file (w\<lparr>db := rows\<rparr>) dst bytes = write_file w dst bytes"
  by (auto simp: write_file_def fun_eq_iff)

lemma copy2_db [simp]: "copy2 (w\<lparr>db := rows\<rparr>) src dst = copy2 w src dst"
  by (auto simp: copy2_def split: option.splits)

lemma copy2_keeps_files:
  assumes "copy2 w src dst = Inr files'"
  shows "(\<forall>p. files w p \<noteq> None \<longrightarrow> files' p \<noteq> None) \<and>
         (\<forall>p. \<not> samefile w p dst \<longrightarrow> files' p = files w p)"
  using assms
  by (auto simp: copy2_def write_file_def split: option.splits if_splits)

lemma store_and_process_files:
  "(\<forall>p. files w p \<noteq> None \<longrightarrow>
        files (final (store_and_process self dflt pdf_path fname fsize out cs w)) p \<noteq> None) \<and>
   (\<forall>p. \<not> samefile w p (path_join (uploads_dir self) fname) \<longrightarrow>
        files (final (store_and_process self dflt pdf_path fname fsize out cs w)) p = files w p)"
proof (cases "copy2 w pdf_path (path_join (uploads_dir self) fname)")
  case (Inl e)
  from store_and_process_failed_copy [OF Inl] show ?thesis by simp
next
  case (Inr files')
  obtain r rows3 where eng: "pdf_processor self (fresh_id (db w))
      (path_join (uploads_dir self) fname) fname
      (db w @ [new_document dflt (fresh_id (db w)) fname
                 (path_join (uploads_dir self) fname) fsize]) = (r, rows3)"
    by (cases "pdf_processor self (fresh_id (db w))
      (path_join (uploads_dir self) fname) fname
      (db w @ [new_document dflt (fresh_id (db w)) fname
                 (path_join (uploads_dir self) fname) fsize])") blast
  from store_and_process_copied [OF Inr eng, of out cs] copy2_keeps_files [OF Inr]
  show ?thesis by simp
qed

lemma store_and_process_creates:
  assumes "copy2 w pdf_path (path_join (uploads_dir self) fname) = Inr files'"
    and "fname \<notin> filename ` set (db w)"
  shows "\<exists>new.
     commits (store_and_process self dflt pdf_path fname fsize out cs w) \<noteq> [] \<and>
     live_records (last (commits (store_and_process self dflt pdf_path fname fsize out cs w)))
       fname = [new] \<and>
     filename new = fname \<and> processing new \<and> \<not> processed new \<and>
     engine_calls (store_and_process self dflt pdf_path fname fsize out cs w)
       = [(doc_id new, path_join (uploads_dir self) fname, fname)]"
proof -
  let ?new = "new_document dflt (fresh_id (db w)) fname (path_join (uploads_dir self) fname) fsize"
  obtain r rows3 where eng: "pdf_processor self (fresh_id (db w))
      (path_join (uploads_dir self) fname) fname (db w @ [?new]) = (r, rows3)"
    by (cases "pdf_processor self (fresh_id (db w))
      (path_join (uploads_dir self) fname) fname (db w @ [?new])") blast
  note shape = store_and_process_copied [OF assms(1) eng, of out cs]
  have one: "live_records (db w @ [?new]) fname = [?new]"
    using no_live_records [OF assms(2)] by (rule live_records_append_new)
  have "commits (store_and_process self dflt pdf_path fname fsize out cs w) \<noteq> [] \<and>
     live_records (last (commits (store_and_process self dflt pdf_path fname fsize out cs w)))
       fname = [?new] \<and>
     filename ?new = fname \<and> processing ?new \<and> \<not> processed ?new \<and>
     engine_calls (store_and_process self dflt pdf_path fname fsize out cs w)
       = [(doc_id ?new, path_join (uploads_dir self) fname, fname)]"
    unfolding shape using one by simp
  then show ?thesis by blast
qed

lemma overlapped_sequential:
  "overlapped_upload self dflt pdf_path response (db w) w
     = upload_and_process_pdf self dflt pdf_path response w"
  by (simp add: overlapped_upload_def upload_and_process_pdf_def)

lemma overlapped_fresh:
  assumes "valid_source w pdf_path" and "files w pdf_path = Some bytes"
    and "find (\<lambda>d. filename d = basename pdf_path) seen = None"
  shows "overlapped_upload self dflt pdf_path response seen w =
     store_and_process self dflt pdf_path (basename pdf_path) (length bytes)
       [ProcessingPdf (basename pdf_path), FileSize (length bytes)] [] w"
  using assms by (simp add: overlapped_upload_def valid_source_def getsize_def Let_def)

lemma overlapped_adds_unchecked:
  assumes "valid_source w pdf_path"
    and "find (\<lambda>d. filename d = basename pdf_path) seen = None"
    and "copy2 w pdf_path (path_join (uploads_dir self) (basename pdf_path)) = Inr files'"
  shows "\<exists>new. filename new = basename pdf_path \<and> processing new \<and> \<not> processed new \<and>
           commits (overlapped_upload self dflt pdf_path response seen w) = [db w @ [new]]"
proof -
  from assms(1) obtain bytes where bytes: "files w pdf_path = Some bytes"
    by (auto dest: valid_source_bytes)
  let ?new = "new_document dflt (fresh_id (db w)) (basename pdf_path)
                (path_join (uploads_dir self) (basename pdf_path)) (length bytes)"
  obtain r rows3 where eng: "pdf_processor self (fresh_id (db w))
      (path_join (uploads_dir self) (basename pdf_path)) (basename pdf_path)
      (db w @ [?new]) = (r, rows3)"
    by (cases "pdf_processor self (fresh_id (db w))
      (path_join (uploads_dir self) (basename pdf_path)) (basename pdf_path)
      (db w @ [?new])") blast
  have "commits (overlapped_upload self dflt pdf_path response seen w) = [db w @ [?new]]"
    unfolding overlapped_fresh [OF assms(1) bytes assms(2)]
      store_and_process_copied [OF assms(3) eng]
    by simp
  then show ?thesis by (intro exI [of _ ?new]) simp
qed

lemma managed_run_eq:
  "managed_run =
     \<lparr> returned = True,
       stdout = [ProcessingPdf ''report.pdf'', FileSize 9, AlreadyExists ''report.pdf'',
                 ReprocessPrompt, DeletedRecord, CopiedTo ''/srv/uploads/report.pdf'',
                 CreatedRecord 1, StartingProcessing, ProcessingCompleted,
                 ProcessingSucceeded, NowAvailable ''report.pdf''],
       commits = [[], [new_document some_defaults 1 ''report.pdf''
                         ''/srv/uploads/report.pdf'' 9]],
       engine_calls = [(1, ''/srv/uploads/report.pdf'', ''report.pdf'')],
       final = managed_world
                 \<lparr> db := [new_document some_defaults 1 ''report.pdf''
                            ''/srv/uploads/report.pdf'' 9],
                   files := [''/home/u/report.pdf'' \<mapsto> ''new bytes'',
                             ''/srv/uploads/report.pdf'' \<mapsto> ''new bytes''] \<rparr> \<rparr>"
  by (simp add: managed_run_def managed_world_def quiet_uploader_def quiet_engine_def
        stored_report_def run_defs write_file_plain)

lemma dotted_run_eq:
  "dotted_run =
     \<lparr> returned = False,
       stdout = [ProcessingPdf ''report.pdf'', FileSize 9, AlreadyExists ''report.pdf'',
                 ReprocessPrompt, DeletedRecord,
                 UploadError (SameFileError ''/srv/uploads/./report.pdf''
                                ''/srv/uploads/report.pdf'')],
       commits = [[]], engine_calls = [],
       final = dotted_world\<lparr>db := []\<rparr> \<rparr>"
  by (simp add: dotted_run_def dotted_world_def quiet_uploader_def quiet_engine_def
        stored_report_def run_defs)

lemma first_run_eq:
  "first_run =
     \<lparr> returned = True,
       stdout = [ProcessingPdf ''same.pdf'', FileSize 4, CopiedTo ''/srv/uploads/same.pdf'',
                 CreatedRecord 1, StartingProcessing, ProcessingCompleted,
                 ProcessingSucceeded, NowAvailable ''same.pdf''],
       commits = [[new_document some_defaults 1 ''same.pdf'' ''/srv/uploads/same.pdf'' 4]],
       engine_calls = [(1, ''/srv/uploads/same.pdf'', ''same.pdf'')],
       final = same_world
                 \<lparr> db := [new_document some_defaults 1 ''same.pdf'' ''/srv/uploads/same.pdf'' 4],
                   files := [''/home/u/same.pdf'' \<mapsto> ''%PDF'',
                             ''/srv/uploads/same.pdf'' \<mapsto> ''%PDF''] \<rparr> \<rparr>"
  by (simp add: first_run_def same_world_def quiet_uploader_def quiet_engine_def run_defs
        write_file_plain)

lemma second_run_eq:
  "second_run =
     \<lparr> returned = True,
       stdout = [ProcessingPdf ''same.pdf'', FileSize 4, CopiedTo ''/srv/uploads/same.pdf'',
                 CreatedRecord 2, StartingProcessing, ProcessingCompleted,
                 ProcessingSucceeded, NowAvailable ''same.pdf''],
       commits = [[new_document some_defaults 1 ''same.pdf'' ''/srv/uploads/same.pdf'' 4,
                   new_document some_defaults 2 ''same.pdf'' ''/srv/uploads/same.pdf'' 4]],
       engine_calls = [(2, ''/srv/uploads/same.pdf'', ''same.pdf'')],
       final = same_world
                 \<lparr> db := [new_document some_defaults 1 ''same.pdf'' ''/srv/uploads/same.pdf'' 4,
                           new_document some_defaults 2 ''same.pdf'' ''/srv/uploads/same.pdf'' 4],
                   files := [''/home/u/same.pdf'' \<mapsto> ''%PDF'',
                             ''/srv/uploads/same.pdf'' \<mapsto> ''%PDF''] \<rparr> \<rparr>"
  by (simp add: second_run_def first_run_eq overlapped_upload_def same_world_def
        quiet_uploader_def quiet_engine_def run_defs write_file_plain)

section \<open>Declined replacement\<close>

text \<open>
  C3. When a record for the filename exists and the user does not answer \<^verbatim>\<open>y\<close>, the
  uploader returns \<open>False\<close>, commits nothing, does not call the engine, and leaves the
  table and the files as they were: the existing record and its backing file are
  untouched. For a valid source the run prints the warning that the document already
  exists and that the upload is cancelled.
\<close>

theorem unconfirmed_upload_aborts:
  fixes self dflt pdf_path response w existing
  defines "out \<equiv> upload_and_process_pdf self dflt pdf_path response w"
  assumes found: "find (\<lambda>d. filename d = basename pdf_path) (db w) = Some existing"
    and no: "lower response \<noteq> ''y''"
  shows "returned out = False \<and> final out = w \<and> commits out = [] \<and> engine_calls out = [] \<and>
         existing \<in> set (db (final out)) \<and>
         files (final out) = files w \<and>
         (valid_source w pdf_path \<longrightarrow>
            (\<exists>n. stdout out =
               [ProcessingPdf (basename pdf_path), FileSize n,
                AlreadyExists (basename pdf_path), ReprocessPrompt, UploadCancelled]))"
proof (cases "valid_source w pdf_path")
  case False
  from upload_invalid [OF False, of self dflt response] find_filename_Some [OF found] False
  show ?thesis by (simp add: out_def)
next
  case True
  then obtain bytes where bytes: "files w pdf_path = Some bytes"
    by (auto dest: valid_source_bytes)
  from upload_cancelled [OF True bytes found no, of self dflt] find_filename_Some [OF found]
  show ?thesis by (simp add: out_def)
qed

theorem unconfirmed_upload_aborts_witness:
  "find (\<lambda>d. filename d = basename ''/home/u/report.pdf'') (db replace_world) = Some old_report \<and>
   lower ''n'' \<noteq> ''y'' \<and>
   valid_source replace_world ''/home/u/report.pdf'' \<and>
   returned declined_run = False \<and>
   final declined_run = replace_world \<and>
   commits declined_run = [] \<and>
   engine_calls declined_run = [] \<and>
   old_report \<in> set (db (final declined_run)) \<and>
   files (final declined_run) (file_path old_report) = Some ''old bytes''"
proof -
  have h1: "find (\<lambda>d. filename d = basename ''/home/u/report.pdf'') (db replace_world)
              = Some old_report"
    by (simp add: replace_world_def old_report_def basename_def)
  have h2: "lower ''n'' \<noteq> ''y''"
    by (simp add: lower_def lower_char_def)
  have h3: "valid_source replace_world ''/home/u/report.pdf''"
    by (simp add: replace_world_def run_defs)
  have f: "files replace_world (file_path old_report) = Some ''old bytes''"
    by (simp add: replace_world_def old_report_def)
  have m: "old_report \<in> set (db replace_world)"
    by (simp add: replace_world_def)
  from unconfirmed_upload_aborts [OF h1 h2, of quiet_uploader some_defaults] h1 h2 h3 f m
  show ?thesis by (simp add: declined_run_def)
qed

section \<open>Engine failure\<close>

text \<open>
  C1, as stated, fails: an engine that raises without touching the table leaves the new
  record with \<open>processing\<close> set, and \<^verbatim>\<open>list_documents\<close> renders it as processing.
\<close>

theorem engine_failure_counterexample:
  "engine_calls bad_run = [(1, ''/srv/uploads/bad.pdf'', ''bad.pdf'')] \<and>
   pdf_processor bad_uploader 1 ''/srv/uploads/bad.pdf'' ''bad.pdf'' (last (commits bad_run))
     = (Some (EngineError ''cannot parse''), [bad_record]) \<and>
   db (final bad_run) = [bad_record] \<and>
   processing bad_record \<and> \<not> processed bad_record \<and>
   handle_call_tool failing_search (Inr (db (final bad_run))) ''list_documents'' no_arguments
     = (Inr [''Available documents in the knowledge base:\<newline>\<newline>'' @
             hourglass @ '' bad.pdf\<newline>'' @
             ''   Status: processing\<newline>'' @
             ''   Upload Date: 2024-02-01 09:00:00\<newline>'' @
             ''   File Size: 4 bytes\<newline>\<newline>''], [])"
proof -
  have sz: "str_nat 4 = ''4''"
    by (simp add: str_nat.simps)
  have entry: "doc_entry bad_record =
      hourglass @ '' bad.pdf\<newline>'' @ ''   Status: processing\<newline>'' @
      ''   Upload Date: 2024-02-01 09:00:00\<newline>'' @ ''   File Size: 4 bytes\<newline>\<newline>''"
    by (simp add: doc_entry_def bad_record_def new_document_def some_defaults_def sz)
  have lst: "handle_call_tool failing_search (Inr [bad_record]) ''list_documents'' no_arguments
     = (Inr [concat (''Available documents in the knowledge base:\<newline>\<newline>'' #
                     map doc_entry [bad_record])], [])"
    by (rule list_documents_rows) simp
  have eng: "pdf_processor bad_uploader 1 ''/srv/uploads/bad.pdf'' ''bad.pdf'' [bad_record]
     = (Some (EngineError ''cannot parse''), [bad_record])"
    by (simp add: bad_uploader_def raising_engine_def)
  have fl: "processing bad_record \<and> \<not> processed bad_record"
    by (simp add: bad_record_def)
  have ec: "engine_calls bad_run = [(1, ''/srv/uploads/bad.pdf'', ''bad.pdf'')]"
    by (simp add: bad_run_eq)
  have cm: "last (commits bad_run) = [bad_record]"
    by (simp add: bad_run_eq bad_record_def)
  have fin: "db (final bad_run) = [bad_record]"
    by (simp add: bad_run_eq bad_record_def)
  have shown: "handle_call_tool failing_search (Inr [bad_record]) ''list_documents'' no_arguments
     = (Inr [''Available documents in the knowledge base:\<newline>\<newline>'' @
             hourglass @ '' bad.pdf\<newline>'' @
             ''   Status: processing\<newline>'' @
             ''   Upload Date: 2024-02-01 09:00:00\<newline>'' @
             ''   File Size: 4 bytes\<newline>\<newline>''], [])"
    unfolding lst by (simp add: entry)
  from ec eng fl shown show ?thesis
    unfolding cm fin by blast
qed

text \<open>
  C1, as the code has it. When the engine raises, the uploader returns \<open>False\<close>, prints
  the error and the failure line, and leaves the table exactly as the engine left it:
  the uploader itself never writes the two flags after creating the record. A record
  that the engine left with both flags clear is rendered by \<^verbatim>\<open>list_documents\<close> with the
  failed symbol and status; a record left with \<open>processing\<close> set is rendered as
  processing.
\<close>

theorem engine_failure_left_to_engine:
  fixes self dflt pdf_path response w
  defines "out \<equiv> upload_and_process_pdf self dflt pdf_path response w"
  assumes called: "engine_calls out = [(i, p, f)]"
    and raised: "pdf_processor self i p f (last (commits out)) = (Some e, rows3)"
  shows "returned out = False \<and>
         db (final out) = rows3 \<and>
         (\<exists>pre. stdout out = pre @ [ProcessingError e, ProcessingFailed]) \<and>
         (\<forall>d \<in> set rows3. \<not> processing d \<and> \<not> processed d \<longrightarrow>
            doc_entry d = entry_layout d ''failed'') \<and>
         status_symbol ''failed'' = cross_mark \<and>
         (\<forall>d \<in> set rows3. processing d \<and> \<not> processed d \<longrightarrow>
            doc_entry d = entry_layout d ''processing'') \<and>
         (rows3 \<noteq> [] \<longrightarrow>
            handle_call_tool search (Inr rows3) ''list_documents'' args
              = (Inr [concat (''Available documents in the knowledge base:\<newline>\<newline>'' #
                              map doc_entry rows3)], []))"
proof -
  from upload_engine_result [OF called [unfolded out_def] raised [unfolded out_def]]
  have a: "returned out = False \<and> db (final out) = rows3 \<and>
         (\<exists>pre. stdout out = pre @ [ProcessingError e, ProcessingFailed])"
    by (simp add: out_def)
  from a entry_failed entry_processing failed_symbol list_documents_rows [of rows3 search args]
  show ?thesis by blast
qed

theorem engine_failure_left_to_engine_witness:
  "engine_calls marked_run = [(3, ''/srv/uploads/bad.pdf'', ''bad.pdf'')] \<and>
   pdf_processor marking_uploader 3 ''/srv/uploads/bad.pdf'' ''bad.pdf''
       (last (commits marked_run))
     = (Some (EngineError ''cannot parse''), [draft_doc, failed_record]) \<and>
   returned marked_run = False \<and>
   db (final marked_run) = [draft_doc, failed_record] \<and>
   doc_entry failed_record = entry_layout failed_record ''failed'' \<and>
   doc_entry draft_doc = entry_layout draft_doc ''processing'' \<and>
   handle_call_tool failing_search (Inr [draft_doc, failed_record])
       ''list_documents'' no_arguments
     = (Inr [concat (''Available documents in the knowledge base:\<newline>\<newline>'' #
                     map doc_entry [draft_doc, failed_record])], [])"
proof -
  have h1: "engine_calls (upload_and_process_pdf marking_uploader some_defaults
              ''/home/u/bad.pdf'' [] stuck_world) = [(3, ''/srv/uploads/bad.pdf'', ''bad.pdf'')]"
    using marked_run_eq by (simp add: marked_run_def)
  have h2: "pdf_processor marking_uploader 3 ''/srv/uploads/bad.pdf'' ''bad.pdf''
              (last (commits (upload_and_process_pdf marking_uploader some_defaults
                 ''/home/u/bad.pdf'' [] stuck_world)))
            = (Some (EngineError ''cannot parse''), [draft_doc, failed_record])"
    using marked_run_eq
    by (simp add: marked_run_def marking_uploader_def marking_engine_def failed_record_def
          new_document_def draft_doc_def)
  have h3: "failed_record \<in> set [draft_doc, failed_record] \<and>
      \<not> processing failed_record \<and> \<not> processed failed_record"
    by (simp add: failed_record_def)
  have h4: "draft_doc \<in> set [draft_doc, failed_record] \<and>
      processing draft_doc \<and> \<not> processed draft_doc"
    by (simp add: draft_doc_def)
  have h5: "[draft_doc, failed_record] \<noteq> []"
    by simp
  from engine_failure_left_to_engine [OF h1 h2, of failing_search no_arguments] h3 h4 h5
  have "returned marked_run = False \<and>
        db (final marked_run) = [draft_doc, failed_record] \<and>
        doc_entry failed_record = entry_layout failed_record ''failed'' \<and>
        doc_entry draft_doc = entry_layout draft_doc ''processing'' \<and>
        handle_call_tool failing_search (Inr [draft_doc, failed_record])
            ''list_documents'' no_arguments
          = (Inr [concat (''Available documents in the knowledge base:\<newline>\<newline>'' #
                          map doc_entry [draft_doc, failed_record])], [])"
    unfolding marked_run_def [symmetric] by blast
  with h1 h2 show ?thesis
    unfolding marked_run_def [symmetric] by blast
qed

section \<open>Confirmed replacement\<close>

text \<open>
  C2, as stated, fails. In both runs the user confirms and the source is the managed copy
  itself, once under the text of the destination and once under a dotted spelling of it:
  the old record is deleted and the deletion committed, the copy raises, no record is
  created, and the backing file of the deleted record is still on disk.
\<close>

theorem confirmed_replacement_counterexample:
  "find (\<lambda>d. filename d = basename ''/srv/uploads/report.pdf'') (db in_place_world)
     = Some stored_report \<and>
   returned in_place_run = False \<and>
   commits in_place_run = [[]] \<and>
   engine_calls in_place_run = [] \<and>
   db (final in_place_run) = [] \<and>
   files (final in_place_run) (file_path stored_report) = Some ''old bytes'' \<and>
   find (\<lambda>d. filename d = basename ''/srv/uploads/./report.pdf'') (db dotted_world)
     = Some stored_report \<and>
   ''/srv/uploads/./report.pdf'' \<noteq> path_join (uploads_dir quiet_uploader) ''report.pdf'' \<and>
   returned dotted_run = False \<and>
   commits dotted_run = [[]] \<and>
   engine_calls dotted_run = [] \<and>
   db (final dotted_run) = [] \<and>
   files (final dotted_run) (file_path stored_report) = Some ''old bytes''"
proof -
  have a: "find (\<lambda>d. filename d = basename ''/srv/uploads/report.pdf'') (db in_place_world)
             = Some stored_report"
    by (simp add: in_place_world_def stored_report_def basename_def)
  have b: "files (final in_place_run) (file_path stored_report) = Some ''old bytes''"
    by (simp add: in_place_run_eq in_place_world_def stored_report_def)
  have c: "find (\<lambda>d. filename d = basename ''/srv/uploads/./report.pdf'') (db dotted_world)
             = Some stored_report"
    by (simp add: dotted_world_def stored_report_def basename_def)
  have d: "files (final dotted_run) (file_path stored_report) = Some ''old bytes''"
    by (simp add: dotted_run_eq dotted_world_def stored_report_def)
  have e: "''/srv/uploads/./report.pdf'' \<noteq> path_join (uploads_dir quiet_uploader) ''report.pdf''"
    by (simp add: quiet_uploader_def run_defs)
  from a b c d e show ?thesis
    by (simp add: in_place_run_eq dotted_run_eq)
qed

text \<open>
  C2, as the code has it. When a record for the filename exists and the user confirms,
  the table without the old record is the first table the run commits, whatever the copy
  does afterwards. The run removes no file: every path that named a file still names one,
  and only what is read through the destination of the copy can change. When the copy
  succeeds, the run commits exactly one more table, with one new record for the
  filename, \<open>processing\<close> set and \<open>processed\<close> clear, and hands it to the engine;
  starting from a table with at most one record for each filename, the old record is gone
  and the new record is the only one of that name.
\<close>

theorem confirmed_replacement:
  fixes self dflt pdf_path response w existing
  defines "out \<equiv> upload_and_process_pdf self dflt pdf_path response w"
    and "fname \<equiv> basename pdf_path"
    and "dest \<equiv> path_join (uploads_dir self) (basename pdf_path)"
    and "rows1 \<equiv> filter (\<lambda>d. doc_id d \<noteq> doc_id existing) (db w)"
  assumes valid: "valid_source w pdf_path"
    and found: "find (\<lambda>d. filename d = basename pdf_path) (db w) = Some existing"
    and yes: "lower response = ''y''"
  shows "commits out \<noteq> [] \<and> hd (commits out) = rows1 \<and> existing \<notin> set rows1 \<and>
     (\<forall>p. files w p \<noteq> None \<longrightarrow> files (final out) p \<noteq> None) \<and>
     (\<forall>p. \<not> samefile w p dest \<longrightarrow> files (final out) p = files w p) \<and>
     (\<forall>files'. copy2 w pdf_path dest = Inr files' \<longrightarrow>
        (\<exists>new.
           commits out = [rows1, rows1 @ [new]] \<and>
           filename new = fname \<and> file_path new = dest \<and>
           processing new \<and> \<not> processed new \<and>
           engine_calls out = [(doc_id new, dest, fname)] \<and>
           db (final out) = snd (pdf_processor self (doc_id new) dest fname (rows1 @ [new])) \<and>
           files (final out) = files' \<and>
           (at_most_one_live (db w) \<longrightarrow>
              live_records rows1 fname = [] \<and>
              live_records (rows1 @ [new]) fname = [new])))"
proof -
  from valid obtain bytes where bytes: "files w pdf_path = Some bytes"
    by (auto dest: valid_source_bytes)
  let ?w1 = "w\<lparr>db := rows1\<rparr>"
  let ?new = "new_document dflt (fresh_id rows1) fname dest (length bytes)"
  have out: "out = store_and_process self dflt pdf_path fname (length bytes)
       [ProcessingPdf fname, FileSize (length bytes), AlreadyExists fname, ReprocessPrompt,
        DeletedRecord] [rows1] ?w1"
    unfolding out_def fname_def rows1_def using valid bytes found yes by (rule upload_confirmed)
  have first: "commits out \<noteq> [] \<and> hd (commits out) = rows1"
    unfolding out by (rule commits_store_and_process_hd)
  have notin: "existing \<notin> set rows1"
    by (simp add: rows1_def)
  have kept: "(\<forall>p. files w p \<noteq> None \<longrightarrow> files (final out) p \<noteq> None) \<and>
     (\<forall>p. \<not> samefile w p dest \<longrightarrow> files (final out) p = files w p)"
    unfolding out dest_def fname_def
    using store_and_process_files [of ?w1 self dflt pdf_path "basename pdf_path"]
    by simp
  have copied: "\<forall>files'. copy2 w pdf_path dest = Inr files' \<longrightarrow>
        (\<exists>new.
           commits out = [rows1, rows1 @ [new]] \<and>
           filename new = fname \<and> file_path new = dest \<and>
           processing new \<and> \<not> processed new \<and>
           engine_calls out = [(doc_id new, dest, fname)] \<and>
           db (final out) = snd (pdf_processor self (doc_id new) dest fname (rows1 @ [new])) \<and>
           files (final out) = files' \<and>
           (at_most_one_live (db w) \<longrightarrow>
              live_records rows1 fname = [] \<and>
              live_records (rows1 @ [new]) fname = [new]))"
  proof (intro allI impI)
    fix files' assume cp0: "copy2 w pdf_path dest = Inr files'"
    then have cp: "copy2 ?w1 pdf_path (path_join (uploads_dir self) fname) = Inr files'"
      by (simp add: dest_def fname_def)
    obtain r rows3 where eng: "pdf_processor self (fresh_id (db ?w1))
        (path_join (uploads_dir self) fname) fname
        (db ?w1 @ [new_document dflt (fresh_id (db ?w1)) fname
                     (path_join (uploads_dir self) fname) (length bytes)]) = (r, rows3)"
      by (cases "pdf_processor self (fresh_id (db ?w1))
        (path_join (uploads_dir self) fname) fname
        (db ?w1 @ [new_document dflt (fresh_id (db ?w1)) fname
                     (path_join (uploads_dir self) fname) (length bytes)])") blast
    note shape = store_and_process_copied [OF cp eng]
    have c: "commits out = [rows1, rows1 @ [?new]]"
      unfolding out shape by (simp add: dest_def fname_def)
    have e: "engine_calls out = [(doc_id ?new, dest, fname)]"
      unfolding out shape by (simp add: dest_def fname_def)
    have d: "db (final out) = snd (pdf_processor self (doc_id ?new) dest fname (rows1 @ [?new]))"
      unfolding out shape using eng by (simp add: dest_def fname_def)
    have f: "files (final out) = files'"
      unfolding out shape by simp
    have n: "filename ?new = fname \<and> file_path ?new = dest \<and> processing ?new \<and> \<not> processed ?new"
      by (simp add: new_document_def)
    have one: "at_most_one_live (db w) \<longrightarrow>
        live_records rows1 fname = [] \<and> live_records (rows1 @ [?new]) fname = [?new]"
    proof
      assume inv: "at_most_one_live (db w)"
      have gone: "live_records rows1 fname = []"
        unfolding rows1_def fname_def
        using deleted_leaves_no_live_record [OF inv found] by (rule no_live_records)
      from gone live_records_append_new [OF gone]
      show "live_records rows1 fname = [] \<and> live_records (rows1 @ [?new]) fname = [?new]"
        by blast
    qed
    from c n e d f one show "\<exists>new.
           commits out = [rows1, rows1 @ [new]] \<and>
           filename new = fname \<and> file_path new = dest \<and>
           processing new \<and> \<not> processed new \<and>
           engine_calls out = [(doc_id new, dest, fname)] \<and>
           db (final out) = snd (pdf_processor self (doc_id new) dest fname (rows1 @ [new])) \<and>
           files (final out) = files' \<and>
           (at_most_one_live (db w) \<longrightarrow>
              live_records rows1 fname = [] \<and>
              live_records (rows1 @ [new]) fname = [new])"
      by blast
  qed
  from first notin kept copied show ?thesis by blast
qed

theorem confirmed_replacement_witness:
  "valid_source managed_world ''/home/u/report.pdf'' \<and>
   find (\<lambda>d. filename d = basename ''/home/u/report.pdf'') (db managed_world)
     = Some stored_report \<and>
   lower ''y'' = ''y'' \<and>
   at_most_one_live (db managed_world) \<and>
   copy2 managed_world ''/home/u/report.pdf'' ''/srv/uploads/report.pdf''
     = Inr (files (final managed_run)) \<and>
   hd (commits managed_run) = [] \<and>
   (\<exists>new. commits managed_run = [[], [new]] \<and>
          live_records [new] ''report.pdf'' = [new] \<and>
          processing new \<and> \<not> processed new \<and>
          engine_calls managed_run = [(doc_id new, ''/srv/uploads/report.pdf'', ''report.pdf'')]) \<and>
   files (final managed_run) ''/home/u/report.pdf'' = files managed_world ''/home/u/report.pdf'' \<and>
   files (final managed_run) (file_path stored_report) \<noteq> None"
proof -
  have bn: "basename ''/home/u/report.pdf'' = ''report.pdf''"
    by (simp add: basename_def)
  have dst: "path_join (uploads_dir quiet_uploader) ''report.pdf'' = ''/srv/uploads/report.pdf''"
    by (simp add: quiet_uploader_def run_defs)
  have rows1: "filter (\<lambda>d. doc_id d \<noteq> doc_id stored_report) (db managed_world) = []"
    by (simp add: managed_world_def)
  have h1: "valid_source managed_world ''/home/u/report.pdf''"
    by (simp add: managed_world_def run_defs)
  have h2: "find (\<lambda>d. filename d = basename ''/home/u/report.pdf'') (db managed_world)
              = Some stored_report"
    by (simp add: managed_world_def stored_report_def basename_def)
  have h3: "lower ''y'' = ''y''"
    by (simp add: lower_def lower_char_def)
  have h4: "at_most_one_live (db managed_world)"
    by (simp add: managed_world_def at_most_one_live_def)
  have h5: "copy2 managed_world ''/home/u/report.pdf'' ''/srv/uploads/report.pdf''
              = Inr (files (final managed_run))"
    by (simp add: managed_run_eq managed_world_def copy2_def samefile_def write_file_plain)
  have h6: "\<not> samefile managed_world ''/home/u/report.pdf'' ''/srv/uploads/report.pdf'' \<and>
            files managed_world (file_path stored_report) \<noteq> None"
    by (simp add: managed_world_def samefile_def stored_report_def)
  from confirmed_replacement [OF h1 h2 h3, of quiet_uploader some_defaults] h4 h5 h6
  have "hd (commits managed_run) = [] \<and>
        (\<exists>new. commits managed_run = [[], [new]] \<and>
          live_records [new] ''report.pdf'' = [new] \<and>
          processing new \<and> \<not> processed new \<and>
          engine_calls managed_run = [(doc_id new, ''/srv/uploads/report.pdf'', ''report.pdf'')]) \<and>
        files (final managed_run) ''/home/u/report.pdf'' = files managed_world ''/home/u/report.pdf'' \<and>
        files (final managed_run) (file_path stored_report) \<noteq> None"
    unfolding managed_run_def [symmetric] bn dst rows1 by auto
  with h1 h2 h3 h4 h5 show ?thesis by blast
qed

section \<open>At most one live record for each filename\<close>

text \<open>
  C8, as stated, fails. Two runs upload the same new file. Each has its query answered
  from the empty table; the second takes its later steps after the first has committed.
  Both create a record, and the table then holds two records of one filename: the check
  and the creation are not a unit.
\<close>

theorem one_live_record_counterexample:
  "at_most_one_live (db same_world) \<and>
   find (\<lambda>d. filename d = basename ''/home/u/same.pdf'') (db same_world) = None \<and>
   returned first_run = True \<and>
   returned second_run = True \<and>
   map filename (last (commits second_run)) = [''same.pdf'', ''same.pdf''] \<and>
   map filename (db (final second_run)) = [''same.pdf'', ''same.pdf''] \<and>
   \<not> at_most_one_live (last (commits second_run)) \<and>
   \<not> at_most_one_live (db (final second_run))"
  by (simp add: second_run_eq first_run_eq same_world_def at_most_one_live_def)

text \<open>
  C8, as the code has it. A run of the uploader between whose steps no other session
  writes, starting from a table with at most one record for each filename, commits only
  such tables, and leaves such a table if the engine keeps the property. When a record
  for the filename exists, the run either aborts without a commit (the user does not
  confirm) or, for a valid source, first commits the table with that record deleted.
  When the run gets past the check and the copy succeeds, the last table it commits
  holds exactly one record for the filename, the one it created and handed to the
  engine. The check and the creation are separate steps: a run whose query found no
  record for the filename adds its record to the table as it stands when the later steps
  are taken, without a second check. The tool adapter of \<^verbatim>\<open>mcp_server.py\<close> only reads
  the table.
\<close>

theorem one_live_record_per_filename:
  fixes self dflt pdf_path response w
  defines "out \<equiv> upload_and_process_pdf self dflt pdf_path response w"
  assumes inv: "at_most_one_live (db w)"
  shows "(\<forall>c \<in> set (commits out). at_most_one_live c) \<and>
         (engine_keeps self at_most_one_live \<longrightarrow> at_most_one_live (db (final out))) \<and>
         (\<forall>ex. find (\<lambda>d. filename d = basename pdf_path) (db w) = Some ex \<longrightarrow>
            (if lower response = ''y''
             then valid_source w pdf_path \<longrightarrow>
                    commits out \<noteq> [] \<and> live_records (hd (commits out)) (basename pdf_path) = []
             else commits out = [] \<and> final out = w)) \<and>
         (\<forall>files'.
            valid_source w pdf_path \<and>
            (find (\<lambda>d. filename d = basename pdf_path) (db w) = None \<or> lower response = ''y'') \<and>
            copy2 w pdf_path (path_join (uploads_dir self) (basename pdf_path)) = Inr files'
            \<longrightarrow>
            (\<exists>new.
               commits out \<noteq> [] \<and>
               live_records (last (commits out)) (basename pdf_path) = [new] \<and>
               filename new = basename pdf_path \<and> processing new \<and> \<not> processed new \<and>
               engine_calls out
                 = [(doc_id new, path_join (uploads_dir self) (basename pdf_path),
                     basename pdf_path)])) \<and>
         (\<forall>files'.
            valid_source w' path' \<and>
            find (\<lambda>d. filename d = basename path') seen = None \<and>
            copy2 w' path' (path_join (uploads_dir self) (basename path')) = Inr files'
            \<longrightarrow>
            (\<exists>new. filename new = basename path' \<and> processing new \<and> \<not> processed new \<and>
                   commits (overlapped_upload self dflt path' response' seen w')
                     = [db w' @ [new]]))"
proof -
  have stale: "\<forall>files'.
            valid_source w' path' \<and>
            find (\<lambda>d. filename d = basename path') seen = None \<and>
            copy2 w' path' (path_join (uploads_dir self) (basename path')) = Inr files'
            \<longrightarrow>
            (\<exists>new. filename new = basename path' \<and> processing new \<and> \<not> processed new \<and>
                   commits (overlapped_upload self dflt path' response' seen w')
                     = [db w' @ [new]])"
    using overlapped_adds_unchecked [of w' path' seen self _ dflt response'] by blast
  have sequential: "(\<forall>c \<in> set (commits out). at_most_one_live c) \<and>
         (engine_keeps self at_most_one_live \<longrightarrow> at_most_one_live (db (final out))) \<and>
         (\<forall>ex. find (\<lambda>d. filename d = basename pdf_path) (db w) = Some ex \<longrightarrow>
            (if lower response = ''y''
             then valid_source w pdf_path \<longrightarrow>
                    commits out \<noteq> [] \<and> live_records (hd (commits out)) (basename pdf_path) = []
             else commits out = [] \<and> final out = w)) \<and>
         (\<forall>files'.
            valid_source w pdf_path \<and>
            (find (\<lambda>d. filename d = basename pdf_path) (db w) = None \<or> lower response = ''y'') \<and>
            copy2 w pdf_path (path_join (uploads_dir self) (basename pdf_path)) = Inr files'
            \<longrightarrow>
            (\<exists>new.
               commits out \<noteq> [] \<and>
               live_records (last (commits out)) (basename pdf_path) = [new] \<and>
               filename new = basename pdf_path \<and> processing new \<and> \<not> processed new \<and>
               engine_calls out
                 = [(doc_id new, path_join (uploads_dir self) (basename pdf_path),
                     basename pdf_path)]))"
  proof (cases "valid_source w pdf_path")
  case False
  from upload_invalid [OF False, of self dflt response] inv False show ?thesis
    by (auto simp: out_def)
next
  case True
  then obtain bytes where bytes: "files w pdf_path = Some bytes"
    by (auto dest: valid_source_bytes)
  show ?thesis
  proof (cases "find (\<lambda>d. filename d = basename pdf_path) (db w)")
    case None
    have out: "out = store_and_process self dflt pdf_path (basename pdf_path) (length bytes)
       [ProcessingPdf (basename pdf_path), FileSize (length bytes)] [] w"
      unfolding out_def using True bytes None by (rule upload_fresh)
    have a: "(\<forall>c \<in> set (commits out). at_most_one_live c) \<and>
         (engine_keeps self at_most_one_live \<longrightarrow> at_most_one_live (db (final out)))"
      unfolding out
      using store_and_process_one_live [of w "basename pdf_path" "[]" self dflt pdf_path "length bytes"]
        inv find_filename_None [OF None] by simp
    have c: "\<forall>files'.
        copy2 w pdf_path (path_join (uploads_dir self) (basename pdf_path)) = Inr files' \<longrightarrow>
        (\<exists>new.
           commits out \<noteq> [] \<and>
           live_records (last (commits out)) (basename pdf_path) = [new] \<and>
           filename new = basename pdf_path \<and> processing new \<and> \<not> processed new \<and>
           engine_calls out
             = [(doc_id new, path_join (uploads_dir self) (basename pdf_path),
                 basename pdf_path)])"
      unfolding out
      using store_and_process_creates [of w pdf_path self "basename pdf_path" _ dflt
          "length bytes" _ "[]"] find_filename_None [OF None]
      by blast
    from a c None show ?thesis by simp
  next
    case (Some ex)
    show ?thesis
    proof (cases "lower response = ''y''")
      case no: False
      from upload_cancelled [OF True bytes Some no, of self dflt] inv Some no
      show ?thesis by (simp add: out_def)
    next
      case yes: True
      let ?rows1 = "filter (\<lambda>d. doc_id d \<noteq> doc_id ex) (db w)"
      let ?w1 = "w\<lparr>db := ?rows1\<rparr>"
      have out: "out = store_and_process self dflt pdf_path (basename pdf_path) (length bytes)
         [ProcessingPdf (basename pdf_path), FileSize (length bytes),
          AlreadyExists (basename pdf_path), ReprocessPrompt, DeletedRecord] [?rows1] ?w1"
        unfolding out_def using True bytes Some yes by (rule upload_confirmed)
      have r1: "at_most_one_live ?rows1"
        using inv by (rule at_most_one_live_filter)
      have gone: "basename pdf_path \<notin> filename ` set ?rows1"
        using inv Some by (rule deleted_leaves_no_live_record)
      have a: "(\<forall>c \<in> set (commits out). at_most_one_live c) \<and>
         (engine_keeps self at_most_one_live \<longrightarrow> at_most_one_live (db (final out)))"
        unfolding out
        using store_and_process_one_live [of ?w1 "basename pdf_path" "[?rows1]" self dflt pdf_path "length bytes"]
          r1 gone by simp
      have "live_records ?rows1 (basename pdf_path) = []"
        using gone by (rule no_live_records)
      then have b: "commits out \<noteq> [] \<and> live_records (hd (commits out)) (basename pdf_path) = []"
        unfolding out by (simp only: commits_store_and_process_hd) simp
      have c: "\<forall>files'.
          copy2 w pdf_path (path_join (uploads_dir self) (basename pdf_path)) = Inr files' \<longrightarrow>
          (\<exists>new.
             commits out \<noteq> [] \<and>
             live_records (last (commits out)) (basename pdf_path) = [new] \<and>
             filename new = basename pdf_path \<and> processing new \<and> \<not> processed new \<and>
             engine_calls out
               = [(doc_id new, path_join (uploads_dir self) (basename pdf_path),
                   basename pdf_path)])"
        unfolding out
        using store_and_process_creates [of ?w1 pdf_path self "basename pdf_path" _ dflt
            "length bytes" _ "[?rows1]"] gone
        by simp
      from a b c Some yes show ?thesis by simp
    qed
  qed
  qed
  from sequential stale show ?thesis by blast
qed

theorem one_live_record_per_filename_witness:
  "at_most_one_live (db managed_world) \<and>
   engine_keeps quiet_uploader at_most_one_live \<and>
   find (\<lambda>d. filename d = basename ''/home/u/report.pdf'') (db managed_world)
     = Some stored_report \<and>
   lower ''y'' = ''y'' \<and>
   valid_source managed_world ''/home/u/report.pdf'' \<and>
   copy2 managed_world ''/home/u/report.pdf''
       (path_join (uploads_dir quiet_uploader) (basename ''/home/u/report.pdf''))
     = Inr (files (final managed_run)) \<and>
   at_most_one_live (db (final managed_run)) \<and>
   list_all at_most_one_live (commits managed_run) \<and>
   commits managed_run \<noteq> [] \<and>
   live_records (hd (commits managed_run)) (basename ''/home/u/report.pdf'') = [] \<and>
   (\<exists>new. live_records (last (commits managed_run)) (basename ''/home/u/report.pdf'') = [new] \<and>
          processing new \<and> \<not> processed new \<and>
          engine_calls managed_run
            = [(doc_id new, path_join (uploads_dir quiet_uploader)
                              (basename ''/home/u/report.pdf''),
                basename ''/home/u/report.pdf'')]) \<and>
   valid_source (final first_run) ''/home/u/same.pdf'' \<and>
   find (\<lambda>d. filename d = basename ''/home/u/same.pdf'') (db same_world) = None \<and>
   copy2 (final first_run) ''/home/u/same.pdf''
       (path_join (uploads_dir quiet_uploader) (basename ''/home/u/same.pdf''))
     = Inr (files (final second_run)) \<and>
   (\<exists>new. filename new = basename ''/home/u/same.pdf'' \<and>
          commits second_run = [db (final first_run) @ [new]])"
proof -
  have h: "at_most_one_live (db managed_world)"
    by (simp add: managed_world_def at_most_one_live_def)
  have f: "find (\<lambda>d. filename d = basename ''/home/u/report.pdf'') (db managed_world)
             = Some stored_report"
    by (simp add: managed_world_def stored_report_def basename_def)
  have y: "lower ''y'' = ''y''"
    by (simp add: lower_def lower_char_def)
  have v: "valid_source managed_world ''/home/u/report.pdf''"
    by (simp add: managed_world_def run_defs)
  have c: "copy2 managed_world ''/home/u/report.pdf''
             (path_join (uploads_dir quiet_uploader) (basename ''/home/u/report.pdf''))
           = Inr (files (final managed_run))"
    by (simp add: managed_run_eq managed_world_def quiet_uploader_def run_defs write_file_plain)
  have v': "valid_source (final first_run) ''/home/u/same.pdf''"
    by (simp add: first_run_eq same_world_def run_defs)
  have f': "find (\<lambda>d. filename d = basename ''/home/u/same.pdf'') (db same_world) = None"
    by (simp add: same_world_def)
  have c': "copy2 (final first_run) ''/home/u/same.pdf''
             (path_join (uploads_dir quiet_uploader) (basename ''/home/u/same.pdf''))
           = Inr (files (final second_run))"
    by (simp add: second_run_eq first_run_eq same_world_def quiet_uploader_def run_defs
          write_file_plain)
  from one_live_record_per_filename
         [OF h, where self = quiet_uploader and dflt = some_defaults
            and pdf_path = "''/home/u/report.pdf''" and response = "''y''"
            and w' = "final first_run" and path' = "''/home/u/same.pdf''"
            and seen = "db same_world" and response' = "[]"]
    quiet_engine_keeps [of at_most_one_live] f y v c v' f' c'
  have "at_most_one_live (db (final managed_run)) \<and>
        (\<forall>c \<in> set (commits managed_run). at_most_one_live c) \<and>
        commits managed_run \<noteq> [] \<and>
        live_records (hd (commits managed_run)) (basename ''/home/u/report.pdf'') = [] \<and>
        (\<exists>new. live_records (last (commits managed_run)) (basename ''/home/u/report.pdf'') = [new] \<and>
          processing new \<and> \<not> processed new \<and>
          engine_calls managed_run
            = [(doc_id new, path_join (uploads_dir quiet_uploader)
                              (basename ''/home/u/report.pdf''),
                basename ''/home/u/report.pdf'')]) \<and>
        (\<exists>new. filename new = basename ''/home/u/same.pdf'' \<and>
          commits second_run = [db (final first_run) @ [new]])"
    unfolding managed_run_def [symmetric] second_run_def [symmetric]
    by (simp only: if_True) blast
  with h f y v c v' f' c' quiet_engine_keeps [of at_most_one_live] show ?thesis
    by (simp add: list_all_iff)
qed

section \<open>The two flags never overlap\<close>

text \<open>
  C9. A run of the uploader that starts from a table in which no record has both
  \<open>processing\<close> and \<open>processed\<close> set commits only such tables, and leaves such a table
  if the engine keeps the property. Every record of a committed table that was not in
  the table before has \<open>processing\<close> set and \<open>processed\<close> clear; in particular the
  record created for the upload, the last one of the table handed to the engine.
\<close>

theorem flags_never_overlap:
  fixes self dflt pdf_path response w
  defines "out \<equiv> upload_and_process_pdf self dflt pdf_path response w"
  assumes inv: "no_overlap (db w)"
  shows "(\<forall>c \<in> set (commits out). no_overlap c) \<and>
         (engine_keeps self no_overlap \<longrightarrow> no_overlap (db (final out))) \<and>
         (\<forall>c \<in> set (commits out). \<forall>d \<in> set c.
            d \<in> set (db w) \<or> (processing d \<and> \<not> processed d)) \<and>
         (engine_calls out \<noteq> [] \<longrightarrow>
            commits out \<noteq> [] \<and> last (commits out) \<noteq> [] \<and>
            filename (last (last (commits out))) = basename pdf_path \<and>
            processing (last (last (commits out))) \<and>
            \<not> processed (last (last (commits out))))"
proof (cases "valid_source w pdf_path")
  case False
  from upload_invalid [OF False, of self dflt response] inv show ?thesis
    by (auto simp: out_def)
next
  case True
  then obtain bytes where bytes: "files w pdf_path = Some bytes"
    by (auto dest: valid_source_bytes)
  show ?thesis
  proof (cases "find (\<lambda>d. filename d = basename pdf_path) (db w)")
    case None
    have out: "out = store_and_process self dflt pdf_path (basename pdf_path) (length bytes)
       [ProcessingPdf (basename pdf_path), FileSize (length bytes)] [] w"
      unfolding out_def using True bytes None by (rule upload_fresh)
    have a: "(\<forall>c \<in> set (commits out). no_overlap c) \<and>
         (engine_keeps self no_overlap \<longrightarrow> no_overlap (db (final out)))"
      unfolding out using store_and_process_no_overlap [of w "[]"] inv by simp
    have b: "\<forall>c \<in> set (commits out). \<forall>d \<in> set c.
            d \<in> set (db w) \<or> (processing d \<and> \<not> processed d)"
      unfolding out using store_and_process_created [of w "set (db w)" "[]"] by simp
    have c: "engine_calls out \<noteq> [] \<longrightarrow>
            commits out \<noteq> [] \<and> last (commits out) \<noteq> [] \<and>
            filename (last (last (commits out))) = basename pdf_path \<and>
            processing (last (last (commits out))) \<and>
            \<not> processed (last (last (commits out)))"
      unfolding out using store_and_process_called [of self dflt pdf_path "basename pdf_path"
          "length bytes" _ "[]" w] by simp
    from a b c show ?thesis by blast
  next
    case (Some ex)
    show ?thesis
    proof (cases "lower response = ''y''")
      case no: False
      from upload_cancelled [OF True bytes Some no, of self dflt] inv
      show ?thesis by (simp add: out_def)
    next
      case yes: True
      let ?rows1 = "filter (\<lambda>d. doc_id d \<noteq> doc_id ex) (db w)"
      let ?w1 = "w\<lparr>db := ?rows1\<rparr>"
      have out: "out = store_and_process self dflt pdf_path (basename pdf_path) (length bytes)
         [ProcessingPdf (basename pdf_path), FileSize (length bytes),
          AlreadyExists (basename pdf_path), ReprocessPrompt, DeletedRecord] [?rows1] ?w1"
        unfolding out_def using True bytes Some yes by (rule upload_confirmed)
      have r1: "no_overlap ?rows1"
        using inv by (rule no_overlap_filter)
      have a: "(\<forall>c \<in> set (commits out). no_overlap c) \<and>
         (engine_keeps self no_overlap \<longrightarrow> no_overlap (db (final out)))"
        unfolding out using store_and_process_no_overlap [of ?w1 "[?rows1]"] r1 by simp
      have b: "\<forall>c \<in> set (commits out). \<forall>d \<in> set c.
            d \<in> set (db w) \<or> (processing d \<and> \<not> processed d)"
        unfolding out using store_and_process_created [of ?w1 "set (db w)" "[?rows1]"] by simp
      have c: "engine_calls out \<noteq> [] \<longrightarrow>
            commits out \<noteq> [] \<and> last (commits out) \<noteq> [] \<and>
            filename (last (last (commits out))) = basename pdf_path \<and>
            processing (last (last (commits out))) \<and>
            \<not> processed (last (last (commits out)))"
        unfolding out using store_and_process_called [of self dflt pdf_path "basename pdf_path"
            "length bytes" _ "[?rows1]" ?w1] by simp
      from a b c show ?thesis by blast
    qed
  qed
qed

theorem flags_never_overlap_witness:
  "no_overlap (db replace_world) \<and>
   engine_keeps quiet_uploader no_overlap \<and>
   engine_calls replace_run \<noteq> [] \<and>
   no_overlap (db (final replace_run)) \<and>
   list_all no_overlap (commits replace_run) \<and>
   processing (last (last (commits replace_run))) \<and>
   \<not> processed (last (last (commits replace_run)))"
proof -
  from replace_hyps have h: "no_overlap (db replace_world)"
    by simp
  have c: "engine_calls replace_run \<noteq> []"
    by (simp add: replace_run_eq)
  from flags_never_overlap [OF h, of quiet_uploader some_defaults "''/home/u/report.pdf''" "''Y''"]
    quiet_engine_keeps [of no_overlap] c
  have "no_overlap (db (final replace_run)) \<and>
        (\<forall>c \<in> set (commits replace_run). no_overlap c) \<and>
        processing (last (last (commits replace_run))) \<and>
        \<not> processed (last (last (commits replace_run)))"
    unfolding replace_run_def [symmetric] by simp
  with h c quiet_engine_keeps [of no_overlap] show ?thesis
    by (simp add: list_all_iff)
qed

end
